theory Spec2Isabelle
  imports Main "HOL-Library.Sublist"
begin

section \<open>Strings and paths\<close>

text \<open>
  The component engine of \<^verbatim>\<open>src/consumer/component/consumer-component.js\<close> works on
  JavaScript strings that hold paths. The functions of this section are the string
  methods and the functions of Node's \<^verbatim>\<open>path\<close> module (POSIX flavour, separator
  \<^verbatim>\<open>/\<close>) that the component calls. They belong to the platform, not to the
  repository, and are written after their documented behaviour.
\<close>

definition path_sep :: string where
  "path_sep = ''/''"

text \<open>\<^verbatim>\<open>str.split(sep)\<close> for a one-character separator.\<close>

fun splitOn :: "char \<Rightarrow> string \<Rightarrow> string list" where
  "splitOn d [] = [[]]"
| "splitOn d (c # cs) =
     (if c = d then [] # splitOn d cs
      else (case splitOn d cs of [] \<Rightarrow> [[c]] | s # ss \<Rightarrow> (c # s) # ss))"

text \<open>\<^verbatim>\<open>arr.join(sep)\<close>.\<close>

fun joinWith :: "string \<Rightarrow> string list \<Rightarrow> string" where
  "joinWith d [] = []"
| "joinWith d [s] = s"
| "joinWith d (s # t # ss) = s @ d @ joinWith d (t # ss)"

text \<open>
  \<^verbatim>\<open>normalizeString(path, allowAboveRoot)\<close> of Node's \<^verbatim>\<open>path\<close> module, on the
  segments between separators: empty segments and \<^verbatim>\<open>.\<close> are dropped, \<^verbatim>\<open>..\<close> removes
  the segment before it, and is kept only where there is nothing to remove and the
  path is relative. The second argument is the stack of segments kept so far, last one
  first.
\<close>

fun normalizeString :: "bool \<Rightarrow> string list \<Rightarrow> string list \<Rightarrow> string list" where
  "normalizeString allowAboveRoot res [] = rev res"
| "normalizeString allowAboveRoot res (s # ss) =
     (if s = [] \<or> s = ''.'' then normalizeString allowAboveRoot res ss
      else if s = ''..'' then
        (case res of
           [] \<Rightarrow> normalizeString allowAboveRoot (if allowAboveRoot then [''..''] else []) ss
         | r # rs \<Rightarrow>
             if r = ''..'' then
               normalizeString allowAboveRoot (if allowAboveRoot then ''..'' # r # rs else r # rs) ss
             else normalizeString allowAboveRoot rs ss)
      else normalizeString allowAboveRoot (s # res) ss)"

text \<open>
  \<^verbatim>\<open>path.normalize(p)\<close>: a zero-length path becomes \<^verbatim>\<open>.\<close>; a leading and a
  trailing separator are kept.
\<close>

definition path_normalize :: "string \<Rightarrow> string" where
  "path_normalize p =
     (if p = [] then ''.''
      else
        let isAbsolute = (hd p = CHR ''/'');
            trailingSeparator = (last p = CHR ''/'');
            q = joinWith ''/'' (normalizeString (\<not> isAbsolute) [] (splitOn (CHR ''/'') p))
        in if q = [] then
             (if isAbsolute then ''/'' else if trailingSeparator then ''./'' else ''.'')
           else (if isAbsolute then ''/'' else []) @ q @ (if trailingSeparator then ''/'' else []))"

text \<open>\<^verbatim>\<open>path.join(a, b)\<close>: the non-empty arguments joined by the separator, normalized.\<close>

definition path_join :: "string \<Rightarrow> string \<Rightarrow> string" where
  "path_join a b =
     (let joined = joinWith ''/'' (filter (\<lambda>s. s \<noteq> []) [a, b])
      in if joined = [] then ''.'' else path_normalize joined)"

text \<open>
  \<^verbatim>\<open>str.replace(part, '')\<close> with a string pattern: the first occurrence of
  \<^verbatim>\<open>part\<close>, wherever it is, is removed.
\<close>

fun removeFirst :: "string \<Rightarrow> string \<Rightarrow> string" where
  "removeFirst part [] = []"
| "removeFirst part (c # cs) =
     (if prefix part (c # cs) then drop (length part) (c # cs)
      else c # removeFirst part cs)"

text \<open>\<^verbatim>\<open>str.lastIndexOf(ch)\<close>; \<^verbatim>\<open>None\<close> stands for -1.\<close>

fun lastIndexOf :: "char \<Rightarrow> string \<Rightarrow> nat option" where
  "lastIndexOf d [] = None"
| "lastIndexOf d (c # cs) =
     (case lastIndexOf d cs of
        Some i \<Rightarrow> Some (Suc i)
      | None \<Rightarrow> if c = d then Some 0 else None)"

text \<open>
  Modelled from the spec: \<^verbatim>\<open>pathNormalizeToLinux\<close> of \<^verbatim>\<open>src/utils\<close> is not among
  the sources; it is one of the "low-level path utilities" and, by the comment at its
  call in \<^verbatim>\<open>setOriginallySharedDir\<close> ("all paths are normalized to Linux"), turns every
  backslash into a slash.
\<close>

definition pathNormalizeToLinux :: "string \<Rightarrow> string" where
  "pathNormalizeToLinux p = map (\<lambda>c. if c = CHR 0x5C then CHR ''/'' else c) p"

text \<open>
  Modelled from the spec: \<^verbatim>\<open>sharedStartOfArray\<close> of \<^verbatim>\<open>src/utils\<close> is not among the
  sources; it yields the start shared by all the strings of an array ("the longest
  common path prefix"), character by character. The sources do not say what it gives
  on an empty array; the empty string is taken here.
\<close>

fun sharedStartOfArray :: "string list \<Rightarrow> string" where
  "sharedStartOfArray [] = []"
| "sharedStartOfArray [p] = p"
| "sharedStartOfArray (p # q # ps) = longest_common_prefix p (sharedStartOfArray (q # ps))"

section \<open>Errors\<close>

text \<open>
  Every \<^verbatim>\<open>throw\<close> and every rejected promise of the component is a value of
  \<open>error\<close>. \<open>HostError\<close> stands for a failure of a collaborator that is outside the
  component (the isolated environment, the workspace, the model store).
\<close>

datatype error =
    GeneralError string
  | TypeError string
  | Error string
  | InvalidCompilerInterface string
  | ExternalBuildError error string
  | ExternalTestError error string
  | ComponentSpecsFailed "string option"
  | HostError string

section \<open>Data model\<close>

subsection \<open>Identities, files and build artifacts\<close>

text \<open>
  Modelled from the spec: class \<^verbatim>\<open>BitId\<close> (\<^verbatim>\<open>src/bit-id\<close>) is not among the sources.
  A component identity is "{scope: optional string, name: string, version: optional
  string}".
\<close>

datatype BitId = BitId (id_scope: "string option") (id_name: string) (id_version: "string option")

text \<open>
  Modelled from the spec: \<^verbatim>\<open>BitId.toString\<close> is not among the sources. The
  "string form derive[s] from all three fields": the scope and the name separated by a
  slash, then \<^verbatim>\<open>@\<close> and the version; an absent scope or version leaves its part out.
\<close>

definition BitId_toString :: "BitId \<Rightarrow> string" where
  "BitId_toString i =
     (case id_scope i of None \<Rightarrow> id_name i | Some s \<Rightarrow> s @ ''/'' @ id_name i) @
     (case id_version i of None \<Rightarrow> [] | Some v \<Rightarrow> ''@'' @ v)"

text \<open>
  Modelled from the spec: the classes \<^verbatim>\<open>SourceFile\<close> and \<^verbatim>\<open>Dist\<close>
  (\<^verbatim>\<open>src/consumer/component/sources\<close>) are not among the sources. Both are files with a
  base directory, a path relative to it, contents and a test flag; the full path of a
  file is its base joined with its relative path. What a compiler returns has the same
  shape, but its contents may be missing (\<open>None\<close>).
\<close>

record 'c AbstractVinyl =
  base :: string
  relative :: string
  contents :: 'c
  test :: bool

type_synonym SourceFile = "string AbstractVinyl"
type_synonym Dist = "string AbstractVinyl"
type_synonym BuiltFile = "string option AbstractVinyl"

text \<open>
  Modelled from the spec: the property \<^verbatim>\<open>path\<close> of a file is not among the sources;
  it is the base joined with the relative path.
\<close>

definition vinyl_path :: "'c AbstractVinyl \<Rightarrow> string" where
  "vinyl_path f = path_join (base f) (relative f)"

text \<open>
  Modelled from the spec: \<^verbatim>\<open>file.updatePaths({ newBase, newRelative })\<close> is not among
  the sources; it "rewrites" the base and the relative path of the file.
\<close>

definition updatePaths :: "string \<Rightarrow> string \<Rightarrow> 'c AbstractVinyl \<Rightarrow> 'c AbstractVinyl" where
  "updatePaths newBase newRelative f = f\<lparr>base := newBase, relative := newRelative\<rparr>"

text \<open>
  Modelled from the spec: class \<^verbatim>\<open>Dists\<close> (\<^verbatim>\<open>./sources/dists\<close>) is not among the
  sources. It is the wrapper around the list of build artifacts whose serialized form
  is "a wrapped \<^verbatim>\<open>{dists: [...]}\<close> object": it stores what its constructor is given in
  its field \<^verbatim>\<open>dists\<close>, and an empty list when it is given nothing. The constructor is
  called with whatever \<^verbatim>\<open>setDists\<close> receives, which at run time is either an array of
  artifacts or, when \<^verbatim>\<open>fromObject\<close> is handed the output of \<^verbatim>\<open>toObject\<close>, a
  \<^verbatim>\<open>Dists\<close> object (\<open>DistsObject\<close>).
\<close>

datatype Dists = Dists (Dists_dists: dists_value)
  and dists_value = DistArray "Dist list" | DistsObject Dists

text \<open>
  Modelled from the spec: the constructor of \<^verbatim>\<open>Dists\<close> is not among the sources. It
  wraps what it is given, and an empty list when it is given nothing ("dists" are
  optional).
\<close>

definition Dists_new :: "dists_value option \<Rightarrow> Dists" where
  "Dists_new dists = (case dists of None \<Rightarrow> Dists (DistArray []) | Some v \<Rightarrow> Dists v)"

text \<open>
  Modelled from the spec: \<^verbatim>\<open>dists.get()\<close> is not among the sources; it gives the
  artifacts that the wrapper holds. A wrapper around another wrapper holds no list of
  artifacts of its own.
\<close>

definition Dists_get :: "Dists \<Rightarrow> Dist list" where
  "Dists_get d = (case Dists_dists d of DistArray ds \<Rightarrow> ds | DistsObject _ \<Rightarrow> [])"

text \<open>
  Modelled from the spec: \<^verbatim>\<open>dists.isEmpty()\<close> is not among the sources; it says that
  the wrapper holds no artifact ("non-empty cached dists").
\<close>

definition Dists_isEmpty :: "Dists \<Rightarrow> bool" where
  "Dists_isEmpty d = (Dists_get d = [])"

subsection \<open>Dependencies\<close>

text \<open>
  Modelled from the spec: the classes \<^verbatim>\<open>Dependency\<close> and \<^verbatim>\<open>Dependencies\<close>
  (\<^verbatim>\<open>./dependencies\<close>) are not among the sources. A dependency class is an "ordered
  collection of dependency records"; each record holds the "target identity + the
  relative source paths that referenced it".
\<close>

record RelativePath =
  sourceRelativePath :: string
  destinationRelativePath :: string

record Dependency =
  dep_id :: BitId
  relativePaths :: "RelativePath list"

datatype Dependencies = Dependencies (Dependencies_get: "Dependency list")

text \<open>
  Modelled from the spec: the constructor of \<^verbatim>\<open>Dependencies\<close> is not among the
  sources; it holds the records it is given, none when it is given nothing.
\<close>

definition Dependencies_new :: "Dependency list option \<Rightarrow> Dependencies" where
  "Dependencies_new ds = (case ds of None \<Rightarrow> Dependencies [] | Some l \<Rightarrow> Dependencies l)"

text \<open>
  Modelled from the spec: \<^verbatim>\<open>dependencies.serialize()\<close> is not among the sources; each
  dependency set is "serialized independently", as the list of its records.
\<close>

definition Dependencies_serialize :: "Dependencies \<Rightarrow> Dependency list" where
  "Dependencies_serialize d = Dependencies_get d"

text \<open>
  Modelled from the spec: \<^verbatim>\<open>dependencies.getSourcesPaths()\<close> is not among the
  sources; it gives "the relative source paths of every dependency" of the class.
\<close>

definition getSourcesPaths :: "Dependencies \<Rightarrow> string list" where
  "getSourcesPaths d =
     concat (map (\<lambda>dep. map sourceRelativePath (relativePaths dep)) (Dependencies_get d))"

text \<open>
  Modelled from the spec: \<^verbatim>\<open>dependencies.getByIdStr(id)\<close> is not among the sources;
  it "looks up the dependency record" of an identity string: the first record whose
  identity has this string form.
\<close>

definition getByIdStr :: "string \<Rightarrow> Dependencies \<Rightarrow> Dependency option" where
  "getByIdStr idStr d = find (\<lambda>dep. BitId_toString (dep_id dep) = idStr) (Dependencies_get d)"

text \<open>
  Modelled from the spec: \<^verbatim>\<open>dependencies.add(dependency)\<close> is not among the sources;
  it puts the record at the end of the ordered collection.
\<close>

definition Dependencies_add :: "Dependency \<Rightarrow> Dependencies \<Rightarrow> Dependencies" where
  "Dependencies_add dep d = Dependencies (Dependencies_get d @ [dep])"

subsection \<open>Plugins, workspace and results\<close>

text \<open>
  A compiler or tester plugin (\<^verbatim>\<open>EnvExtension\<close>) is outside the component. What the
  component reads of it: its name, whether it is loaded, what installing it does, and
  its two call contracts, each of which may be absent. A call of a contract returns a
  value or throws.
\<close>

record ('a, 'o) EnvExtension =
  ext_name :: string
  loaded :: bool
  install :: "error option"
  action :: "'a option"
  oldAction :: "'o option"

text \<open>
  The modern compiler contract gets the files and a context with the dist root; its
  result is \<open>None\<close> when it is falsy or has no \<^verbatim>\<open>files\<close>. The legacy contract gets
  the files and the dist root and returns the artifacts.
\<close>

type_synonym compiler_action = "SourceFile list \<Rightarrow> string \<Rightarrow> error + BuiltFile list option"
type_synonym compiler_oldAction = "SourceFile list \<Rightarrow> string \<Rightarrow> error + BuiltFile list"
type_synonym CompilerExtension = "(compiler_action, compiler_oldAction) EnvExtension"

record Failure =
  title :: string
  err :: "error option"

record RawTestsResults =
  specPath :: "string option"
  pass :: bool
  tests :: "string list"
  failures :: "Failure list"

text \<open>
  The modern tester contract gets the list of test files and returns one raw result per
  file; the legacy contract gets the path of one test file.
\<close>

type_synonym tester_action = "string AbstractVinyl list \<Rightarrow> error + RawTestsResults list"
type_synonym tester_oldAction = "string \<Rightarrow> error + RawTestsResults"
type_synonym TesterExtension = "(tester_action, tester_oldAction) EnvExtension"

datatype ComponentOrigin = AUTHORED | IMPORTED | NESTED

record ComponentMap =
  cm_origin :: ComponentOrigin
  rootDir :: "string option"

text \<open>
  The workspace (\<^verbatim>\<open>Consumer\<close>) with its index (\<^verbatim>\<open>bitMap\<close>), as the component reads
  it: its path, where dists live, the index record of an identity, and the status of a
  component (\<open>True\<close> for "modified"), which is computed outside and may fail.
\<close>

type_synonym BitMap = "BitId \<Rightarrow> ComponentMap option"

record Consumer =
  getPath :: string
  shouldDistsBeInsideTheComponent :: bool
  bitMap :: BitMap
  getComponentStatusById :: "BitId \<Rightarrow> error + bool"

text \<open>A documentation doclet, as the parser of documentation comments gives it.\<close>

datatype Doclet = Doclet string

text \<open>
  Modelled from the spec: class \<^verbatim>\<open>License\<close> (\<^verbatim>\<open>../component/sources\<close>) is not among
  the sources. A license is its text; serializing it gives the text, deserializing a
  text gives the license.
\<close>

datatype License = License (License_serialize: string)

text \<open>
  Values that the component only stores and hands on: the configuration object, the
  creation log, the raw shape of the files, the descriptor of a plugin in a serialized
  component, and a serialized specs result.
\<close>

typedecl ComponentBitJson
typedecl Log
datatype RawFiles = RawFiles string
datatype EnvDescriptor = EnvDescriptor string
datatype SerializedSpecs = SerializedSpecs string

text \<open>
  Modelled from the spec: class \<^verbatim>\<open>SpecsResults\<close> (\<^verbatim>\<open>../specs-results\<close>) is not among the
  sources; it is the "uniform result type per file" into which raw results are
  normalized.
\<close>

record SpecsResults =
  specFile :: "string option"
  sr_pass :: bool
  sr_tests :: "string list"
  sr_failures :: "Failure list"

record customResolvedPath =
  destinationPath :: string
  importSource :: string

text \<open>
  The private field \<^verbatim>\<open>_files\<close>: absent, an array of files, or the raw object that the
  getter \<^verbatim>\<open>files\<close> turns into an array on first access.
\<close>

datatype files_field = FilesNull | FilesArray "SourceFile list" | FilesRaw RawFiles

type_synonym PackageMap = "(string \<times> string) list"

subsection \<open>The serialized component\<close>

text \<open>
  The plain object that \<^verbatim>\<open>toObject\<close> gives and \<^verbatim>\<open>fromObject\<close> takes. \<open>None\<close> is an
  absent (or \<^verbatim>\<open>null\<close>) property. The types of \<^verbatim>\<open>files\<close> and \<^verbatim>\<open>dists\<close> are
  parameters: in the object of \<^verbatim>\<open>toObject\<close> and \<^verbatim>\<open>fromObject\<close> they hold what the
  constructor takes, in a parsed JSON document they hold parsed JSON.
\<close>

record ('f, 'd) ComponentObject =
  o_name :: string
  o_box :: "string option"
  o_version :: "string option"
  o_mainFile :: string
  o_scope :: "string option"
  o_lang :: "string option"
  o_bindingPrefix :: "string option"
  o_compiler :: "EnvDescriptor option"
  o_tester :: "EnvDescriptor option"
  o_detachedCompiler :: "bool option"
  o_detachedTester :: "bool option"
  o_dependencies :: "Dependency list option"
  o_devDependencies :: "Dependency list option"
  o_compilerDependencies :: "Dependency list option"
  o_testerDependencies :: "Dependency list option"
  o_packageDependencies :: "PackageMap option"
  o_devPackageDependencies :: "PackageMap option"
  o_peerPackageDependencies :: "PackageMap option"
  o_compilerPackageDependencies :: "PackageMap option"
  o_testerPackageDependencies :: "PackageMap option"
  o_files :: 'f
  o_docs :: "Doclet list option"
  o_dists :: 'd
  o_specsResults :: "SerializedSpecs list option"
  o_license :: "string option"
  o_log :: "Log option"
  o_deprecated :: "bool option"

type_synonym SerializedComponent = "(files_field, dists_value option) ComponentObject"

text \<open>
  A parsed JSON document of a component. A file or artifact in it is a parsed JSON
  object, here its list of keys and values. The \<^verbatim>\<open>dists\<close> of a document is absent,
  a bare array (the legacy form) or an object with an array \<^verbatim>\<open>dists\<close> (the current
  form); these are the shapes that \<^verbatim>\<open>fromString\<close> tells apart.
\<close>

datatype ParsedVinyl = ParsedVinyl "(string \<times> string) list"

datatype json_dists = JAbsent | JArray "ParsedVinyl list" | JWrapped "ParsedVinyl list"

type_synonym ParsedDocument = "(ParsedVinyl list option, json_dists) ComponentObject"

subsection \<open>What the component takes from outside\<close>

text \<open>
  Constants and functions of the repository that the component imports and that are
  not among the sources. The component's operations take them as a parameter.
\<close>

record Externals =
  DEFAULT_LANGUAGE :: string
  DEFAULT_BINDINGS_PREFIX :: string
  DEFAULT_DIST_DIRNAME :: string
  docsParser :: "string \<Rightarrow> string \<Rightarrow> Doclet list"
  SourceFile_load :: "RawFiles \<Rightarrow> SourceFile list"
  Compiler_toObject :: "CompilerExtension \<Rightarrow> EnvDescriptor"
  Compiler_loadFromModelObject :: "EnvDescriptor \<Rightarrow> error + CompilerExtension"
  Tester_toObject :: "TesterExtension \<Rightarrow> EnvDescriptor"
  Tester_loadFromModelObject :: "EnvDescriptor \<Rightarrow> error + TesterExtension"
  SpecsResults_serialize :: "SpecsResults \<Rightarrow> SerializedSpecs"
  SpecsResults_deserialize :: "SerializedSpecs list \<Rightarrow> SpecsResults list"
  SpecsResults_createFromRaw :: "RawTestsResults \<Rightarrow> SpecsResults"
  getDistDirForConsumer :: "Consumer option \<Rightarrow> string option \<Rightarrow> string"
  paintSpecsResults :: "SpecsResults list \<Rightarrow> string list"
  chalk_bold_white :: "string \<Rightarrow> string"
  JSON_parse :: "string \<Rightarrow> ParsedDocument option"
  SourceFile_loadFromParsedStringArray :: "ParsedVinyl list option \<Rightarrow> SourceFile list option"
  Dist_loadFromParsedStringArray :: "ParsedVinyl list \<Rightarrow> Dist list"

subsection \<open>The component\<close>

text \<open>
  The fields of the class that the operations modelled here read or write. Left out
  are \<^verbatim>\<open>dependenciesSavedAsComponents\<close>, \<^verbatim>\<open>loadedFromFileSystem\<close>,
  \<^verbatim>\<open>componentMap\<close>, \<^verbatim>\<open>issues\<close>, \<^verbatim>\<open>_driver\<close>, \<^verbatim>\<open>_isModified\<close>,
  \<^verbatim>\<open>packageJsonInstance\<close>, \<^verbatim>\<open>_currentlyUsedVersion\<close> and \<^verbatim>\<open>pendingVersion\<close>,
  which belong to loading from and writing to the file system; of
  \<^verbatim>\<open>isolatedEnvironment\<close> only whether it is set is kept.

  The four dependency classes. The snapshot of the component in the model
  (\<^verbatim>\<open>componentFromModel\<close>) is a component itself; the operations modelled here read
  only its four dependency classes, and \<open>componentFromModel\<close> holds just these.
\<close>

record DependencyClasses =
  dependencies :: Dependencies
  devDependencies :: Dependencies
  compilerDependencies :: Dependencies
  testerDependencies :: Dependencies

record Component = DependencyClasses +
  name :: string
  version :: "string option"
  scope :: "string option"
  lang :: string
  bindingPrefix :: string
  mainFile :: string
  compiler :: "CompilerExtension option"
  tester :: "TesterExtension option"
  bitJson :: "ComponentBitJson option"
  flattenedDependencies :: "BitId list"
  flattenedDevDependencies :: "BitId list"
  flattenedCompilerDependencies :: "BitId list"
  flattenedTesterDependencies :: "BitId list"
  packageDependencies :: PackageMap
  devPackageDependencies :: PackageMap
  peerPackageDependencies :: PackageMap
  compilerPackageDependencies :: PackageMap
  testerPackageDependencies :: PackageMap
  priv_files :: files_field
  priv_docs :: "Doclet list option"
  dists :: Dists
  specsResults :: "SpecsResults list option"
  license :: "License option"
  log :: "Log option"
  deprecated :: bool
  origin :: "ComponentOrigin option"
  detachedCompiler :: "bool option"
  detachedTester :: "bool option"
  customResolvedPaths :: "customResolvedPath list"
  writtenPath :: "string option"
  originallySharedDir :: "string option"
  priv_wasOriginallySharedDirStripped :: bool
  componentFromModel :: "DependencyClasses option"
  isolatedEnvironment :: bool

text \<open>The argument of the constructor (\<^verbatim>\<open>ComponentProps\<close>); \<open>None\<close> is an absent property.\<close>

record ComponentProps =
  p_name :: string
  p_version :: "string option"
  p_scope :: "string option"
  p_lang :: "string option"
  p_bindingPrefix :: "string option"
  p_mainFile :: string
  p_compiler :: "CompilerExtension option"
  p_tester :: "TesterExtension option"
  p_bitJson :: "ComponentBitJson option"
  p_dependencies :: "Dependency list option"
  p_devDependencies :: "Dependency list option"
  p_compilerDependencies :: "Dependency list option"
  p_testerDependencies :: "Dependency list option"
  p_flattenedDependencies :: "BitId list option"
  p_flattenedDevDependencies :: "BitId list option"
  p_flattenedCompilerDependencies :: "BitId list option"
  p_flattenedTesterDependencies :: "BitId list option"
  p_packageDependencies :: "PackageMap option"
  p_devPackageDependencies :: "PackageMap option"
  p_peerPackageDependencies :: "PackageMap option"
  p_compilerPackageDependencies :: "PackageMap option"
  p_testerPackageDependencies :: "PackageMap option"
  p_files :: files_field
  p_docs :: "Doclet list option"
  p_dists :: "dists_value option"
  p_specsResults :: "SpecsResults list option"
  p_license :: "License option"
  p_log :: "Log option"
  p_deprecated :: "bool option"
  p_origin :: "ComponentOrigin option"
  p_detachedCompiler :: "bool option"
  p_detachedTester :: "bool option"
  p_customResolvedPaths :: "customResolvedPath list option"

text \<open>\<^verbatim>\<open>a || b\<close> on an optional value whose present values are all truthy.\<close>

definition orElse :: "'a option \<Rightarrow> 'a \<Rightarrow> 'a" where
  "orElse a b = (case a of None \<Rightarrow> b | Some v \<Rightarrow> v)"

text \<open>\<^verbatim>\<open>a || b\<close> on an optional string: the empty string is falsy too.\<close>

definition orElseString :: "string option \<Rightarrow> string \<Rightarrow> string" where
  "orElseString a b = (case a of None \<Rightarrow> b | Some v \<Rightarrow> if v = [] then b else v)"

definition Component_id :: "Component \<Rightarrow> BitId" where
  "Component_id c = BitId (scope c) (name c) (version c)"

definition setDists :: "dists_value option \<Rightarrow> Component \<Rightarrow> Component" where
  "setDists ds c = c\<lparr>dists := Dists_new ds\<rparr>"

text \<open>
  \<^verbatim>\<open>validateComponent\<close>: the fields \<^verbatim>\<open>name\<close> and \<^verbatim>\<open>mainFile\<close> are checked in
  this order; the first falsy one throws.
\<close>

fun validateFields :: "Component \<Rightarrow> (string \<times> (Component \<Rightarrow> string)) list \<Rightarrow> error + Component" where
  "validateFields c [] = Inr c"
| "validateFields c ((field, get) # rest) =
     (if get c = [] then
        Inl (GeneralError (''failed loading a component '' @ BitId_toString (Component_id c) @
                           '', the field '' @ [CHR 0x22] @ field @ [CHR 0x22] @ '' can't be empty''))
      else validateFields c rest)"

definition validateComponent :: "Component \<Rightarrow> error + Component" where
  "validateComponent c = validateFields c [(''name'', name), (''mainFile'', mainFile)]"

text \<open>
  The constructor. The fields that the class declares with an initial value or leaves
  unset start as the class has them.
\<close>

definition Component_new :: "Externals \<Rightarrow> ComponentProps \<Rightarrow> error + Component" where
  "Component_new X p =
     validateComponent
       \<lparr> dependencies = Dependencies_new (p_dependencies p),
         devDependencies = Dependencies_new (p_devDependencies p),
         compilerDependencies = Dependencies_new (p_compilerDependencies p),
         testerDependencies = Dependencies_new (p_testerDependencies p),
         name = p_name p,
         version = p_version p,
         scope = p_scope p,
         lang = orElseString (p_lang p) (DEFAULT_LANGUAGE X),
         bindingPrefix = orElseString (p_bindingPrefix p) (DEFAULT_BINDINGS_PREFIX X),
         mainFile = path_normalize (p_mainFile p),
         compiler = p_compiler p,
         tester = p_tester p,
         bitJson = p_bitJson p,
         flattenedDependencies = orElse (p_flattenedDependencies p) [],
         flattenedDevDependencies = orElse (p_flattenedDevDependencies p) [],
         flattenedCompilerDependencies = orElse (p_flattenedCompilerDependencies p) [],
         flattenedTesterDependencies = orElse (p_flattenedTesterDependencies p) [],
         packageDependencies = orElse (p_packageDependencies p) [],
         devPackageDependencies = orElse (p_devPackageDependencies p) [],
         peerPackageDependencies = orElse (p_peerPackageDependencies p) [],
         compilerPackageDependencies = orElse (p_compilerPackageDependencies p) [],
         testerPackageDependencies = orElse (p_testerPackageDependencies p) [],
         priv_files = p_files p,
         priv_docs = p_docs p,
         dists = Dists_new (p_dists p),
         specsResults = p_specsResults p,
         license = p_license p,
         log = p_log p,
         deprecated = orElse (p_deprecated p) False,
         origin = p_origin p,
         detachedCompiler = p_detachedCompiler p,
         detachedTester = p_detachedTester p,
         customResolvedPaths = orElse (p_customResolvedPaths p) [],
         writtenPath = None,
         originallySharedDir = None,
         priv_wasOriginallySharedDirStripped = False,
         componentFromModel = None,
         isolatedEnvironment = False \<rparr>"

section \<open>Operations\<close>

text \<open>
  An operation that mutates the component takes it and returns it updated. An
  operation that may throw returns a value of \<open>error + 'a\<close>; where the state at the
  throw matters, it is returned next to the error.
\<close>

subsection \<open>The getters \<^verbatim>\<open>files\<close> and \<^verbatim>\<open>docs\<close>\<close>

definition get_files :: "Externals \<Rightarrow> Component \<Rightarrow> SourceFile list option \<times> Component" where
  "get_files X c =
     (case priv_files c of
        FilesNull \<Rightarrow> (None, c)
      | FilesArray fs \<Rightarrow> (Some fs, c)
      | FilesRaw r \<Rightarrow> (let fs = SourceFile_load X r in (Some fs, c\<lparr>priv_files := FilesArray fs\<rparr>)))"

definition set_files :: "files_field \<Rightarrow> Component \<Rightarrow> Component" where
  "set_files val c = c\<lparr>priv_files := val\<rparr>"

text \<open>
  \<^verbatim>\<open>get docs\<close>: computed when \<^verbatim>\<open>_docs\<close> is unset, from the files if there are
  any, and stored; an array, also an empty one, is truthy and is returned as it is.
\<close>

definition get_docs :: "Externals \<Rightarrow> Component \<Rightarrow> Doclet list \<times> Component" where
  "get_docs X c =
     (case priv_docs c of
        Some d \<Rightarrow> (d, c)
      | None \<Rightarrow>
          (case get_files X c of
             (Some fs, c') \<Rightarrow>
               (let d = concat (map (\<lambda>file. docsParser X (contents file) (relative file)) fs)
                in (d, c'\<lparr>priv_docs := Some d\<rparr>))
           | (None, c') \<Rightarrow> ([], c'\<lparr>priv_docs := Some []\<rparr>)))"

subsection \<open>The shared directory\<close>

text \<open>
  \<^verbatim>\<open>setOriginallySharedDir\<close>. \<open>originallySharedDir c = None\<close> is the
  \<^verbatim>\<open>undefined\<close> of the source; reading \<^verbatim>\<open>this.files.map\<close> when the files are absent
  throws before anything is written.
\<close>

definition allPaths :: "SourceFile list \<Rightarrow> Component \<Rightarrow> string list" where
  "allPaths fs c =
     map (\<lambda>file. pathNormalizeToLinux (relative file)) fs @
     getSourcesPaths (dependencies c) @
     getSourcesPaths (devDependencies c) @
     getSourcesPaths (compilerDependencies c) @
     getSourcesPaths (testerDependencies c)"

definition setOriginallySharedDir :: "Externals \<Rightarrow> Component \<Rightarrow> error + Component" where
  "setOriginallySharedDir X c =
     (if originallySharedDir c \<noteq> None then Inr c
      else
        (case get_files X c of
           (None, _) \<Rightarrow> Inl (TypeError ''Cannot read property 'map' of null'')
         | (Some fs, c') \<Rightarrow>
             (let sharedStart = sharedStartOfArray (allPaths fs c')
              in if sharedStart = [] \<or> CHR ''/'' \<notin> set sharedStart then Inr c'
                 else
                   (case lastIndexOf (CHR ''/'') sharedStart of
                      None \<Rightarrow> Inr c'
                    | Some lastPathSeparator \<Rightarrow>
                        Inr (c'\<lparr>originallySharedDir := Some (take lastPathSeparator sharedStart)\<rparr>)))))"

text \<open>The local function \<^verbatim>\<open>pathWithoutSharedDir\<close> of \<^verbatim>\<open>stripOriginallySharedDir\<close>.\<close>

definition pathWithoutSharedDir :: "string \<Rightarrow> string option \<Rightarrow> string" where
  "pathWithoutSharedDir pathStr sharedDir =
     (case sharedDir of
        None \<Rightarrow> pathStr
      | Some d \<Rightarrow>
          if d = [] then pathStr
          else removeFirst (path_normalize d @ path_sep) pathStr)"

text \<open>
  Modelled from the spec: \<^verbatim>\<open>Dists.stripOriginallySharedDir\<close> is not among the
  sources. Stripping "rewrites [...] every dist's relative path [...] by removing the
  shared-prefix segment", with the function it is given. A wrapper that holds no list
  of artifacts has nothing to rewrite.
\<close>

definition Dists_stripOriginallySharedDir ::
  "string option \<Rightarrow> (string \<Rightarrow> string option \<Rightarrow> string) \<Rightarrow> Dists \<Rightarrow> Dists" where
  "Dists_stripOriginallySharedDir sharedDir without d =
     (case Dists_dists d of
        DistArray ds \<Rightarrow>
          Dists (DistArray (map (\<lambda>dist. updatePaths (base dist) (without (relative dist) sharedDir) dist) ds))
      | DistsObject _ \<Rightarrow> d)"

text \<open>
  Modelled from the spec: \<^verbatim>\<open>Dependencies.stripOriginallySharedDir\<close> is not among the
  sources. Stripping "rewrites [...] every dependency-class's recorded source paths
  [...] by removing the shared-prefix segment".
\<close>

definition Dependencies_stripOriginallySharedDir ::
  "BitMap option \<Rightarrow> string option \<Rightarrow> Dependencies \<Rightarrow> Dependencies" where
  "Dependencies_stripOriginallySharedDir bm sharedDir d =
     Dependencies
       (map (\<lambda>dep. dep\<lparr>relativePaths :=
                      map (\<lambda>rp. rp\<lparr>sourceRelativePath :=
                                    pathWithoutSharedDir (sourceRelativePath rp) sharedDir\<rparr>)
                          (relativePaths dep)\<rparr>)
            (Dependencies_get d))"

text \<open>
  \<^verbatim>\<open>stripOriginallySharedDir\<close>: nothing is done when the component is marked as
  stripped; otherwise the shared directory is computed if it has not been, removed
  from the files, the dists, the main file, the four dependency classes and the custom
  resolved paths, and the component is marked. Reading absent files throws before
  anything is written.
\<close>

definition stripOriginallySharedDir ::
  "Externals \<Rightarrow> BitMap option \<Rightarrow> Component \<Rightarrow> error + Component" where
  "stripOriginallySharedDir X bm c =
     (if priv_wasOriginallySharedDirStripped c then Inr c
      else
        (case setOriginallySharedDir X c of
           Inl e \<Rightarrow> Inl e
         | Inr c1 \<Rightarrow>
             (case get_files X c1 of
                (None, _) \<Rightarrow> Inl (TypeError ''Cannot read property 'forEach' of null'')
              | (Some fs, c2) \<Rightarrow>
                  (let sharedDir = originallySharedDir c2
                   in Inr (c2\<lparr>
                        priv_files :=
                          FilesArray (map (\<lambda>file. updatePaths (base file)
                                             (pathWithoutSharedDir (relative file) sharedDir) file) fs),
                        dists := Dists_stripOriginallySharedDir sharedDir pathWithoutSharedDir (dists c2),
                        mainFile := pathWithoutSharedDir (mainFile c2) sharedDir,
                        dependencies :=
                          Dependencies_stripOriginallySharedDir bm sharedDir (dependencies c2),
                        devDependencies :=
                          Dependencies_stripOriginallySharedDir bm sharedDir (devDependencies c2),
                        compilerDependencies :=
                          Dependencies_stripOriginallySharedDir bm sharedDir (compilerDependencies c2),
                        testerDependencies :=
                          Dependencies_stripOriginallySharedDir bm sharedDir (testerDependencies c2),
                        customResolvedPaths :=
                          map (\<lambda>customPath. customPath\<lparr>destinationPath :=
                                 pathNormalizeToLinux
                                   (pathWithoutSharedDir (path_normalize (destinationPath customPath))
                                      sharedDir)\<rparr>)
                              (customResolvedPaths c2),
                        priv_wasOriginallySharedDirStripped := True\<rparr>)))))"

text \<open>\<^verbatim>\<open>copyFilesIntoDists\<close>: every file becomes an artifact with the same paths and contents.\<close>

definition copyFilesIntoDists :: "Externals \<Rightarrow> Component \<Rightarrow> error + Component" where
  "copyFilesIntoDists X c =
     (case get_files X c of
        (None, _) \<Rightarrow> Inl (TypeError ''Cannot read property 'map' of null'')
      | (Some fs, c') \<Rightarrow>
          Inr (setDists
                 (Some (DistArray (map (\<lambda>file. \<lparr>base = base file, relative = relative file,
                                                 contents = contents file, test = False\<rparr>) fs)))
                 c'))"

subsection \<open>The plain object of a component\<close>

text \<open>What the getter \<^verbatim>\<open>files\<close> returned, as a value of the property \<^verbatim>\<open>files\<close>.\<close>

definition loadedFiles :: "SourceFile list option \<Rightarrow> files_field" where
  "loadedFiles fs = (case fs of None \<Rightarrow> FilesNull | Some l \<Rightarrow> FilesArray l)"

text \<open>
  \<^verbatim>\<open>toObject\<close>. Reading \<^verbatim>\<open>this.files\<close> and \<^verbatim>\<open>this.docs\<close> goes through the
  getters, which may store what they compute; the component afterwards is returned
  with the object. \<^verbatim>\<open>dists\<close> is the wrapper object itself.
\<close>

definition toObject :: "Externals \<Rightarrow> Component \<Rightarrow> SerializedComponent \<times> Component" where
  "toObject X c =
     (let (fs, c1) = get_files X c;
          (d, c2) = get_docs X c1
      in (\<lparr> o_name = name c,
            o_box = None,
            o_version = version c,
            o_mainFile = mainFile c,
            o_scope = scope c,
            o_lang = Some (lang c),
            o_bindingPrefix = Some (bindingPrefix c),
            o_compiler = map_option (Compiler_toObject X) (compiler c),
            o_tester = map_option (Tester_toObject X) (tester c),
            o_detachedCompiler = detachedCompiler c,
            o_detachedTester = detachedTester c,
            o_dependencies = Some (Dependencies_serialize (dependencies c)),
            o_devDependencies = Some (Dependencies_serialize (devDependencies c)),
            o_compilerDependencies = Some (Dependencies_serialize (compilerDependencies c)),
            o_testerDependencies = Some (Dependencies_serialize (testerDependencies c)),
            o_packageDependencies = Some (packageDependencies c),
            o_devPackageDependencies = Some (devPackageDependencies c),
            o_peerPackageDependencies = Some (peerPackageDependencies c),
            o_compilerPackageDependencies = Some (compilerPackageDependencies c),
            o_testerPackageDependencies = Some (testerPackageDependencies c),
            o_files = loadedFiles fs,
            o_docs = Some d,
            o_dists = Some (DistsObject (dists c)),
            o_specsResults = map_option (map (SpecsResults_serialize X)) (specsResults c),
            o_license = map_option License_serialize (license c),
            o_log = log c,
            o_deprecated = Some (deprecated c) \<rparr>, c2))"

subsection \<open>Building\<close>

text \<open>
  What an operation does to its collaborators is recorded as a list of events, in the
  order of the calls: installing and calling a plugin, creating, filling and
  destroying an isolated environment, writing to the model store and to disk.
\<close>

datatype event =
    CompilerInstall
  | CompilerAction
  | CompilerOldAction
  | TesterInstall
  | TesterAction
  | TesterOldAction string
  | EnvCreate
  | EnvIsolate
  | EnvDestroy
  | UpdateDist
  | ModifySpecsResults
  | WriteDists

text \<open>
  The collaborators reached through the \<^verbatim>\<open>scope\<close> argument: the isolated environment
  made from it (creating it, materializing the component in it, which gives the
  materialized component, destroying it), the model store, and writing dists to disk.
  Each call succeeds or throws.
\<close>

record Host =
  env_create :: "error option"
  env_isolateComponent :: "error + Component"
  env_destroy :: "error option"
  sources_updateDist :: "error option"
  sources_modifySpecsResults :: "error option"
  dists_writeDists :: "error option"

datatype build_output = NoCompilerCode | BuiltFiles "BuiltFile list"

text \<open>
  The local function \<^verbatim>\<open>runBuild\<close> of \<^verbatim>\<open>buildIfNeeded\<close>. Joining an absent
  component root with the dist directory throws outside the promise chain; whatever
  is thrown inside it is wrapped as an external build error. The context handed to the
  compiler holds \<^verbatim>\<open>this.toObject()\<close>, whose getters may store what they compute:
  the component afterwards is part of the result.
\<close>

definition runBuild ::
  "Externals \<Rightarrow> CompilerExtension \<Rightarrow> Consumer option \<Rightarrow> ComponentMap option \<Rightarrow>
   SourceFile list \<Rightarrow> Component \<Rightarrow> string option \<Rightarrow>
   (error + build_output) \<times> event list \<times> Component" where
  "runBuild X compilerExt consumer componentMap files c componentRoot =
     (case componentRoot of
        None \<Rightarrow> (Inl (TypeError ''The path argument must be of type string''), [], c)
      | Some root \<Rightarrow>
          (let rootDistFolder =
                 (case componentMap of
                    None \<Rightarrow> path_join root (DEFAULT_DIST_DIRNAME X)
                  | Some cm \<Rightarrow> getDistDirForConsumer X consumer (rootDir cm));
               c1 = snd (toObject X c);
               idStr = BitId_toString (Component_id c)
           in case action compilerExt of
                Some act \<Rightarrow>
                  (case act files rootDistFolder of
                     Inl e \<Rightarrow> (Inl (ExternalBuildError e idStr), [CompilerAction], c1)
                   | Inr None \<Rightarrow>
                       (Inl (ExternalBuildError (Error ''compiler return invalid response'') idStr),
                        [CompilerAction], c1)
                   | Inr (Some resultFiles) \<Rightarrow> (Inr (BuiltFiles resultFiles), [CompilerAction], c1))
              | None \<Rightarrow>
                  (case oldAction compilerExt of
                     Some old \<Rightarrow>
                       (case old files rootDistFolder of
                          Inl e \<Rightarrow> (Inl (ExternalBuildError e idStr), [CompilerOldAction], c1)
                        | Inr resultFiles \<Rightarrow> (Inr (BuiltFiles resultFiles), [CompilerOldAction], c1))
                   | None \<Rightarrow>
                       (Inl (ExternalBuildError (TypeError ''compiler.oldAction is not a function'') idStr),
                        [], c1))))"

text \<open>
  The last part of \<^verbatim>\<open>buildIfNeeded\<close>: with neither a workspace nor an isolated
  environment of its own, the component is built in a fresh isolated environment,
  which is destroyed afterwards unless it is to be kept, and in the \<^verbatim>\<open>catch\<close> block
  on every failure.
\<close>

definition destroyAndReject ::
  "Host \<Rightarrow> error \<Rightarrow> event list \<Rightarrow> Component \<Rightarrow> (error + 'a) \<times> event list \<times> Component" where
  "destroyAndReject H e tr c =
     (case env_destroy H of
        Some e' \<Rightarrow> (Inl e', tr @ [EnvDestroy], c)
      | None \<Rightarrow> (Inl e, tr @ [EnvDestroy], c))"

definition buildInIsolatedEnvironment ::
  "Externals \<Rightarrow> Host \<Rightarrow> CompilerExtension \<Rightarrow> Consumer option \<Rightarrow> ComponentMap option \<Rightarrow>
   bool \<Rightarrow> SourceFile list \<Rightarrow> Component \<Rightarrow> (error + build_output) \<times> event list \<times> Component" where
  "buildInIsolatedEnvironment X H compilerExt consumer componentMap keep files c =
     (case env_create H of
        Some e \<Rightarrow> destroyAndReject H e [EnvCreate] c
      | None \<Rightarrow>
          (case env_isolateComponent H of
             Inl e \<Rightarrow> destroyAndReject H e [EnvCreate, EnvIsolate] c
           | Inr component \<Rightarrow>
               (case runBuild X compilerExt consumer componentMap files c (writtenPath component) of
                  (Inl e, tr, c1) \<Rightarrow> destroyAndReject H e ([EnvCreate, EnvIsolate] @ tr) c1
                | (Inr result, tr, c1) \<Rightarrow>
                    if keep then (Inr result, [EnvCreate, EnvIsolate] @ tr, c1)
                    else
                      (case env_destroy H of
                         Some e \<Rightarrow> destroyAndReject H e ([EnvCreate, EnvIsolate] @ tr @ [EnvDestroy]) c1
                       | None \<Rightarrow> (Inr result, [EnvCreate, EnvIsolate] @ tr @ [EnvDestroy], c1)))))"

text \<open>
  What \<^verbatim>\<open>buildIfNeeded\<close> does once the compiler has passed the check of its
  interface.
\<close>

definition buildWithCompiler ::
  "Externals \<Rightarrow> Host \<Rightarrow> CompilerExtension \<Rightarrow> Consumer option \<Rightarrow> ComponentMap option \<Rightarrow>
   bool \<Rightarrow> SourceFile list \<Rightarrow> Component \<Rightarrow> (error + build_output) \<times> event list \<times> Component" where
  "buildWithCompiler X H compilerExt consumer componentMap keep files c =
     (case consumer of
        Some cons \<Rightarrow> runBuild X compilerExt consumer componentMap files c (Some (getPath cons))
      | None \<Rightarrow>
          if isolatedEnvironment c then
            runBuild X compilerExt consumer componentMap files c (writtenPath c)
          else buildInIsolatedEnvironment X H compilerExt consumer componentMap keep files c)"

text \<open>
  \<^verbatim>\<open>buildIfNeeded\<close>: what it resolves to or rejects with, the events, and the
  component afterwards.
\<close>

definition buildIfNeeded ::
  "Externals \<Rightarrow> Host \<Rightarrow> CompilerExtension option \<Rightarrow> Consumer option \<Rightarrow> ComponentMap option \<Rightarrow>
   bool \<Rightarrow> Component \<Rightarrow> (error + build_output) \<times> event list \<times> Component" where
  "buildIfNeeded X H compilerArg consumer componentMap keep c =
     (case compilerArg of
        None \<Rightarrow> (Inr NoCompilerCode, [], c)
      | Some compilerExt \<Rightarrow>
          (case get_files X c of
             (None, _) \<Rightarrow> (Inl (TypeError ''Cannot read property 'map' of null''), [], c)
           | (Some files, c0) \<Rightarrow>
               if action compilerExt = None \<and> oldAction compilerExt = None then
                 (Inl (InvalidCompilerInterface (ext_name compilerExt)), [], c0)
               else buildWithCompiler X H compilerExt consumer componentMap keep files c0))"

text \<open>The options of \<^verbatim>\<open>build\<close>.\<close>

record BuildOptions =
  b_save :: bool
  b_consumer :: "Consumer option"
  b_noCache :: bool
  b_keep :: bool

text \<open>
  Modelled from the spec: the constructor of \<^verbatim>\<open>Dist\<close> is not among the sources.
  \<^verbatim>\<open>new Dist(file)\<close> makes an artifact of a file that a compiler returned; it is
  called only on files that have contents.
\<close>

definition Dist_new :: "BuiltFile \<Rightarrow> Dist" where
  "Dist_new file =
     \<lparr>base = base file, relative = relative file,
      contents = (case contents file of None \<Rightarrow> [] | Some s \<Rightarrow> s), test = test file\<rparr>"

text \<open>
  The second half of \<^verbatim>\<open>build\<close>, from "compiler found, start building" on: the
  compiler is installed if it is not loaded, the component is built, every artifact is
  checked for contents, the dists are replaced and, on request, saved.
\<close>

definition rebuild ::
  "Externals \<Rightarrow> Host \<Rightarrow> BuildOptions \<Rightarrow> CompilerExtension \<Rightarrow> ComponentMap option \<Rightarrow>
   Component \<Rightarrow> (error + Dists option) \<times> event list \<times> Component" where
  "rebuild X H opts compilerExt componentMap c =
     (let installed = (if loaded compilerExt then [] else [CompilerInstall])
      in if \<not> loaded compilerExt \<and> install compilerExt \<noteq> None then
           (Inl (case install compilerExt of Some e \<Rightarrow> e | None \<Rightarrow> Error []), installed, c)
         else
           (case buildIfNeeded X H (Some compilerExt) (b_consumer opts) componentMap (b_keep opts) c of
              (Inl e, tr, c1) \<Rightarrow> (Inl e, installed @ tr, c1)
            | (Inr NoCompilerCode, tr, c1) \<Rightarrow>
                (Inl (TypeError ''builtFiles.forEach is not a function''), installed @ tr, c1)
            | (Inr (BuiltFiles builtFiles), tr, c1) \<Rightarrow>
                if list_ex (\<lambda>file. contents file = None) builtFiles then
                  (Inl (GeneralError
                     ''builder interface has to return object with a code attribute that contains string''),
                   installed @ tr, c1)
                else
                  (let c2 = setDists (Some (DistArray (map Dist_new builtFiles))) c1
                   in if b_save opts then
                        (case sources_updateDist H of
                           Some e \<Rightarrow> (Inl e, installed @ tr @ [UpdateDist], c2)
                         | None \<Rightarrow> (Inr (Some (dists c2)), installed @ tr @ [UpdateDist], c2))
                      else (Inr (Some (dists c2)), installed @ tr, c2))))"

text \<open>
  \<^verbatim>\<open>build\<close>. The result is what the promise resolves to (\<open>None\<close> for \<^verbatim>\<open>null\<close>) or
  rejects with, the events, and the component afterwards.
\<close>

text \<open>\<^verbatim>\<open>bitMap && bitMap.getComponentIfExist(id)\<close>.\<close>

definition getComponentIfExist :: "BitMap option \<Rightarrow> BitId \<Rightarrow> ComponentMap option" where
  "getComponentIfExist bm i = (case bm of None \<Rightarrow> None | Some m \<Rightarrow> m i)"

definition isNeededToReBuild :: "BuildOptions \<Rightarrow> Component \<Rightarrow> error + bool" where
  "isNeededToReBuild opts c =
     (if b_noCache opts then Inr True
      else
        (case b_consumer opts of
           None \<Rightarrow> Inr False
         | Some cons \<Rightarrow> getComponentStatusById cons (Component_id c)))"

definition build ::
  "Externals \<Rightarrow> Host \<Rightarrow> BuildOptions \<Rightarrow> Component \<Rightarrow>
   (error + Dists option) \<times> event list \<times> Component" where
  "build X H opts c =
     (case compiler c of
        None \<Rightarrow>
          (case b_consumer opts of
             None \<Rightarrow> (Inr None, [], c)
           | Some cons \<Rightarrow>
               if shouldDistsBeInsideTheComponent cons then (Inr None, [], c)
               else
                 (case copyFilesIntoDists X c of
                    Inl e \<Rightarrow> (Inl e, [], c)
                  | Inr c' \<Rightarrow> (Inr (Some (dists c')), [], c')))
      | Some compilerExt \<Rightarrow>
          (let bm = map_option bitMap (b_consumer opts);
               componentMap = getComponentIfExist bm (Component_id c)
           in case isNeededToReBuild opts c of
                Inl e \<Rightarrow> (Inl e, [], c)
              | Inr needToRebuild \<Rightarrow>
                  if \<not> needToRebuild \<and> \<not> Dists_isEmpty (dists c) then
                    (case componentMap of
                       None \<Rightarrow> (Inr (Some (dists c)), [], c)
                     | Some cm \<Rightarrow>
                         if cm_origin cm = IMPORTED then
                           (case stripOriginallySharedDir X bm c of
                              Inl e \<Rightarrow> (Inl e, [], c)
                            | Inr c' \<Rightarrow> (Inr (Some (dists c')), [], c'))
                         else (Inr (Some (dists c)), [], c))
                  else rebuild X H opts compilerExt componentMap c))"

subsection \<open>Running the specs\<close>

record SpecsOptions =
  r_rejectOnFailure :: bool
  r_consumer :: "Consumer option"
  r_save :: bool
  r_verbose :: bool
  r_isolated :: bool
  r_keep :: bool

text \<open>\<^verbatim>\<open>err.message\<close> of a thrown error.\<close>

fun message :: "error \<Rightarrow> string" where
  "message (GeneralError m) = m"
| "message (TypeError m) = m"
| "message (Error m) = m"
| "message (HostError m) = m"
| "message (InvalidCompilerInterface n) = n"
| "message (ExternalBuildError e i) = message e"
| "message (ExternalTestError e i) = message e"
| "message (ComponentSpecsFailed r) = (case r of None \<Rightarrow> [] | Some m \<Rightarrow> m)"

text \<open>
  The local function \<^verbatim>\<open>oneFileSpecResult\<close>: the legacy tester contract on one test
  file. Whatever is thrown inside its \<^verbatim>\<open>try\<close>, also by calling an absent
  \<^verbatim>\<open>oldAction\<close>, becomes a failing result for this file.
\<close>

definition crashedSpecResult :: "string AbstractVinyl \<Rightarrow> error \<Rightarrow> RawTestsResults" where
  "crashedSpecResult testFile e =
     \<lparr>specPath = Some (relative testFile), pass = False, tests = [],
      failures = [\<lparr>title = message e, err = Some e\<rparr>]\<rparr>"

definition oneFileSpecResult :: "TesterExtension \<Rightarrow> string AbstractVinyl \<Rightarrow> RawTestsResults" where
  "oneFileSpecResult testerExt testFile =
     (case oldAction testerExt of
        None \<Rightarrow> crashedSpecResult testFile (TypeError ''tester.oldAction is not a function'')
      | Some old \<Rightarrow>
          (case old (vinyl_path testFile) of
             Inr results \<Rightarrow> results\<lparr>specPath := Some (relative testFile)\<rparr>
           | Inl e \<Rightarrow> crashedSpecResult testFile e))"

text \<open>
  The local function \<^verbatim>\<open>run\<close> of \<^verbatim>\<open>runSpecs\<close>. \<open>this\<close> is the component whose
  specs are run and which gets the results; \<open>component\<close> is the component whose
  files are tested: \<open>None\<close> when it is \<open>this\<close> itself, the component materialized
  in the isolated environment otherwise. The test files are the dists marked as tests
  if there are dists, the files marked as tests otherwise.
\<close>

definition testFilesList :: "Externals \<Rightarrow> Component \<Rightarrow> string AbstractVinyl list option" where
  "testFilesList X component =
     (if \<not> Dists_isEmpty (dists component) then Some (filter test (Dists_get (dists component)))
      else map_option (filter test) (fst (get_files X component)))"

text \<open>
  Calling the tester: the modern contract once, with all test files, or the legacy
  contract once per test file. Only what the modern contract throws leaves the
  \<^verbatim>\<open>try\<close> block, wrapped as an external test error.
\<close>

definition runTester ::
  "TesterExtension \<Rightarrow> string \<Rightarrow> string AbstractVinyl list \<Rightarrow>
   (error + RawTestsResults list) \<times> event list" where
  "runTester testerExt idStr testFiles =
     (case action testerExt of
        Some act \<Rightarrow>
          (case act testFiles of
             Inl e \<Rightarrow> (Inl (ExternalTestError e idStr), [TesterAction])
           | Inr results \<Rightarrow> (Inr results, [TesterAction]))
      | None \<Rightarrow>
          (Inr (map (oneFileSpecResult testerExt) testFiles),
           if oldAction testerExt = None then []
           else map (\<lambda>testFile. TesterOldAction (vinyl_path testFile)) testFiles))"

text \<open>
  What reading the test files and, under the modern contract, making the context
  object (\<^verbatim>\<open>component.toObject()\<close>) store in \<open>this\<close> when it is the component
  tested.
\<close>

definition afterReading :: "Externals \<Rightarrow> TesterExtension \<Rightarrow> Component \<Rightarrow> Component" where
  "afterReading X testerExt this =
     (let this1 = (if \<not> Dists_isEmpty (dists this) then this else snd (get_files X this))
      in if action testerExt \<noteq> None then snd (toObject X this1) else this1)"

definition run ::
  "Externals \<Rightarrow> Host \<Rightarrow> SpecsOptions \<Rightarrow> TesterExtension \<Rightarrow> Component \<Rightarrow> Component option \<Rightarrow>
   (error + SpecsResults list option) \<times> event list \<times> Component" where
  "run X H opts testerExt this component =
     (case testFilesList X (case component of None \<Rightarrow> this | Some other \<Rightarrow> other) of
        None \<Rightarrow> (Inl (TypeError ''Cannot read property 'filter' of null''), [], this)
      | Some testFiles \<Rightarrow>
          (let this1 = (case component of None \<Rightarrow> afterReading X testerExt this | Some other \<Rightarrow> this)
           in case runTester testerExt (BitId_toString (Component_id this)) testFiles of
                (Inl e, tr) \<Rightarrow> (Inl e, tr, this1)
              | (Inr raw, tr) \<Rightarrow>
                  (let results = map (SpecsResults_createFromRaw X) raw;
                       this2 = this1\<lparr>specsResults := Some results\<rparr>
                   in if r_rejectOnFailure opts \<and> \<not> list_all sr_pass results then
                        (Inl (ComponentSpecsFailed
                               (if r_verbose opts then
                                  Some (chalk_bold_white X (BitId_toString (Component_id this)) @
                                        joinWith [CHR 0x0A] (paintSpecsResults X results) @ [CHR 0x0A])
                                else None)),
                         tr, this2)
                      else if r_save opts then
                        (case sources_modifySpecsResults H of
                           Some e \<Rightarrow> (Inl e, tr @ [ModifySpecsResults], this2)
                         | None \<Rightarrow> (Inr (Some results), tr @ [ModifySpecsResults], this2))
                      else (Inr (Some results), tr, this2))))"

text \<open>
  The isolated branch of \<^verbatim>\<open>runSpecs\<close>: the component is materialized in a fresh
  isolated environment, built there, its dists are written, the specs are run, and the
  environment is destroyed unless it is to be kept, and on every failure.
\<close>

definition runSpecsIsolated ::
  "Externals \<Rightarrow> Host \<Rightarrow> SpecsOptions \<Rightarrow> TesterExtension \<Rightarrow> Component \<Rightarrow>
   (error + SpecsResults list option) \<times> event list \<times> Component" where
  "runSpecsIsolated X H opts testerExt c =
     (case env_create H of
        Some e \<Rightarrow> destroyAndReject H e [EnvCreate] c
      | None \<Rightarrow>
          (case env_isolateComponent H of
             Inl e \<Rightarrow> destroyAndReject H e [EnvCreate, EnvIsolate] c
           | Inr isolatedComponent \<Rightarrow>
               (case build X H \<lparr>b_save = False, b_consumer = None, b_noCache = False, b_keep = False\<rparr>
                       (isolatedComponent\<lparr>isolatedEnvironment := True\<rparr>) of
                  (Inl e, tr, _) \<Rightarrow> destroyAndReject H e ([EnvCreate, EnvIsolate] @ tr) c
                | (Inr _, tr, component) \<Rightarrow>
                    (let written = (if Dists_isEmpty (dists component) then [] else [WriteDists])
                     in if \<not> Dists_isEmpty (dists component) \<and> dists_writeDists H \<noteq> None then
                          destroyAndReject H
                            (case dists_writeDists H of Some e \<Rightarrow> e | None \<Rightarrow> Error [])
                            ([EnvCreate, EnvIsolate] @ tr @ written) c
                        else
                          (case run X H opts testerExt c (Some component) of
                             (Inl e, tr', c') \<Rightarrow>
                               destroyAndReject H e ([EnvCreate, EnvIsolate] @ tr @ written @ tr') c'
                           | (Inr results, tr', c') \<Rightarrow>
                               if r_keep opts then
                                 (Inr results, [EnvCreate, EnvIsolate] @ tr @ written @ tr', c')
                               else
                                 (case env_destroy H of
                                    Some e \<Rightarrow>
                                      destroyAndReject H e
                                        ([EnvCreate, EnvIsolate] @ tr @ written @ tr' @ [EnvDestroy]) c'
                                  | None \<Rightarrow>
                                      (Inr results,
                                       [EnvCreate, EnvIsolate] @ tr @ written @ tr' @ [EnvDestroy], c')))))))"

definition runSpecs ::
  "Externals \<Rightarrow> Host \<Rightarrow> SpecsOptions \<Rightarrow> Component \<Rightarrow>
   (error + SpecsResults list option) \<times> event list \<times> Component" where
  "runSpecs X H opts c =
     (case get_files X c of
        (None, _) \<Rightarrow> (Inl (TypeError ''Cannot read property 'filter' of null''), [], c)
      | (Some fs, c0) \<Rightarrow>
          (case tester c0 of
             None \<Rightarrow> (Inr None, [], c0)
           | Some testerExt \<Rightarrow>
               if filter test fs = [] then (Inr None, [], c0)
               else
                 (let installed = (if loaded testerExt then [] else [TesterInstall])
                  in if \<not> loaded testerExt \<and> install testerExt \<noteq> None then
                       (Inl (case install testerExt of Some e \<Rightarrow> e | None \<Rightarrow> Error []), installed, c0)
                     else
                       (case (r_isolated opts, r_consumer opts) of
                          (False, Some cons) \<Rightarrow>
                            (case build X H \<lparr>b_save = False, b_consumer = Some cons,
                                             b_noCache = False, b_keep = False\<rparr> c0 of
                               (Inl e, tr, c1) \<Rightarrow> (Inl e, installed @ tr, c1)
                             | (Inr _, tr, c1) \<Rightarrow>
                                 (case dists_writeDists H of
                                    Some e \<Rightarrow> (Inl e, installed @ tr @ [WriteDists], c1)
                                  | None \<Rightarrow>
                                      (case run X H opts testerExt c1 None of
                                         (r, tr', c2) \<Rightarrow>
                                           (r, installed @ tr @ [WriteDists] @ tr', c2))))
                        | _ \<Rightarrow>
                            (case runSpecsIsolated X H opts testerExt c0 of
                               (r, tr, c1) \<Rightarrow> (r, installed @ tr, c1))))))"

subsection \<open>Copying dependencies from the model\<close>

text \<open>
  \<^verbatim>\<open>copyDependenciesFromModel\<close>. One identity: the four classes of the model are
  searched in the order runtime, dev, compiler, tester, and the first record found is
  added to the same class of the component.
\<close>

definition unableToFind :: "string \<Rightarrow> error" where
  "unableToFind idStr =
     Error (''copyDependenciesFromModel unable to find dependency '' @ idStr @ '' in the model'')"

definition copyDependencyFromModel ::
  "DependencyClasses \<Rightarrow> string \<Rightarrow> Component \<Rightarrow> error + Component" where
  "copyDependencyFromModel model idStr c =
     (case getByIdStr idStr (dependencies model) of
        Some dependency \<Rightarrow>
          Inr (c\<lparr>dependencies := Dependencies_add dependency (dependencies c)\<rparr>)
      | None \<Rightarrow>
     (case getByIdStr idStr (devDependencies model) of
        Some dependency \<Rightarrow>
          Inr (c\<lparr>devDependencies := Dependencies_add dependency (devDependencies c)\<rparr>)
      | None \<Rightarrow>
     (case getByIdStr idStr (compilerDependencies model) of
        Some dependency \<Rightarrow>
          Inr (c\<lparr>compilerDependencies := Dependencies_add dependency (compilerDependencies c)\<rparr>)
      | None \<Rightarrow>
     (case getByIdStr idStr (testerDependencies model) of
        Some dependency \<Rightarrow>
          Inr (c\<lparr>testerDependencies := Dependencies_add dependency (testerDependencies c)\<rparr>)
      | None \<Rightarrow> Inl (unableToFind idStr)))))"

text \<open>
  The \<^verbatim>\<open>forEach\<close> over the identities: a throw ends it, and what the earlier
  identities added stays. The result is the component afterwards and the error thrown,
  if any.
\<close>

fun copyEach :: "DependencyClasses \<Rightarrow> string list \<Rightarrow> Component \<Rightarrow> Component \<times> error option" where
  "copyEach model [] c = (c, None)"
| "copyEach model (idStr # ids) c =
     (case copyDependencyFromModel model idStr c of
        Inl e \<Rightarrow> (c, Some e)
      | Inr c' \<Rightarrow> copyEach model ids c')"

definition copyDependenciesFromModel :: "string list \<Rightarrow> Component \<Rightarrow> Component \<times> error option" where
  "copyDependenciesFromModel ids c =
     (case componentFromModel c of
        None \<Rightarrow> (c, Some (Error ''copyDependenciesFromModel: component is missing from the model''))
      | Some model \<Rightarrow> copyEach model ids c)"

subsection \<open>Reading a serialized component\<close>

text \<open>
  \<^verbatim>\<open>fromObject\<close>. The compiler and the tester are loaded from their descriptors,
  which may fail; every other property goes to the constructor as it is, except the
  name (prefixed with a \<^verbatim>\<open>box\<close> if there is one), the specs results and the license
  (deserialized when truthy) and \<^verbatim>\<open>deprecated\<close>.
\<close>

definition loadEnv :: "('e \<Rightarrow> error + 'x) \<Rightarrow> 'e option \<Rightarrow> error + 'x option" where
  "loadEnv load descriptor =
     (case descriptor of
        None \<Rightarrow> Inr None
      | Some d \<Rightarrow> (case load d of Inl e \<Rightarrow> Inl e | Inr x \<Rightarrow> Inr (Some x)))"

definition fromObject :: "Externals \<Rightarrow> SerializedComponent \<Rightarrow> error + Component" where
  "fromObject X object =
     (case loadEnv (Compiler_loadFromModelObject X) (o_compiler object) of
        Inl e \<Rightarrow> Inl e
      | Inr compilerExt \<Rightarrow>
          (case loadEnv (Tester_loadFromModelObject X) (o_tester object) of
             Inl e \<Rightarrow> Inl e
           | Inr testerExt \<Rightarrow>
               Component_new X
                 \<lparr> p_name = (case o_box object of
                               None \<Rightarrow> o_name object
                             | Some box \<Rightarrow> if box = [] then o_name object
                                           else box @ ''/'' @ o_name object),
                   p_version = o_version object,
                   p_scope = o_scope object,
                   p_lang = o_lang object,
                   p_bindingPrefix = o_bindingPrefix object,
                   p_mainFile = o_mainFile object,
                   p_compiler = compilerExt,
                   p_tester = testerExt,
                   p_bitJson = None,
                   p_dependencies = o_dependencies object,
                   p_devDependencies = o_devDependencies object,
                   p_compilerDependencies = o_compilerDependencies object,
                   p_testerDependencies = o_testerDependencies object,
                   p_flattenedDependencies = None,
                   p_flattenedDevDependencies = None,
                   p_flattenedCompilerDependencies = None,
                   p_flattenedTesterDependencies = None,
                   p_packageDependencies = o_packageDependencies object,
                   p_devPackageDependencies = o_devPackageDependencies object,
                   p_peerPackageDependencies = o_peerPackageDependencies object,
                   p_compilerPackageDependencies = o_compilerPackageDependencies object,
                   p_testerPackageDependencies = o_testerPackageDependencies object,
                   p_files = o_files object,
                   p_docs = o_docs object,
                   p_dists = o_dists object,
                   p_specsResults = map_option (SpecsResults_deserialize X) (o_specsResults object),
                   p_license = (case o_license object of
                                  None \<Rightarrow> None
                                | Some l \<Rightarrow> if l = [] then None else Some (License l)),
                   p_log = None,
                   p_deprecated = Some (orElse (o_deprecated object) False),
                   p_origin = None,
                   p_detachedCompiler = o_detachedCompiler object,
                   p_detachedTester = o_detachedTester object,
                   p_customResolvedPaths = None \<rparr>))"

text \<open>
  \<^verbatim>\<open>fromString\<close>: the JSON is parsed, the files are loaded, and the \<^verbatim>\<open>dists\<close> are
  loaded from the bare array or from the array inside the wrapping object.
\<close>

definition loadedDists :: "Externals \<Rightarrow> json_dists \<Rightarrow> dists_value option" where
  "loadedDists X ds =
     (case ds of
        JAbsent \<Rightarrow> None
      | JArray arr \<Rightarrow> Some (DistArray (Dist_loadFromParsedStringArray X arr))
      | JWrapped arr \<Rightarrow> Some (DistArray (Dist_loadFromParsedStringArray X arr)))"

definition withLoaded :: "Externals \<Rightarrow> ParsedDocument \<Rightarrow> SerializedComponent" where
  "withLoaded X object =
     \<lparr> o_name = o_name object,
       o_box = o_box object,
       o_version = o_version object,
       o_mainFile = o_mainFile object,
       o_scope = o_scope object,
       o_lang = o_lang object,
       o_bindingPrefix = o_bindingPrefix object,
       o_compiler = o_compiler object,
       o_tester = o_tester object,
       o_detachedCompiler = o_detachedCompiler object,
       o_detachedTester = o_detachedTester object,
       o_dependencies = o_dependencies object,
       o_devDependencies = o_devDependencies object,
       o_compilerDependencies = o_compilerDependencies object,
       o_testerDependencies = o_testerDependencies object,
       o_packageDependencies = o_packageDependencies object,
       o_devPackageDependencies = o_devPackageDependencies object,
       o_peerPackageDependencies = o_peerPackageDependencies object,
       o_compilerPackageDependencies = o_compilerPackageDependencies object,
       o_testerPackageDependencies = o_testerPackageDependencies object,
       o_files = loadedFiles (SourceFile_loadFromParsedStringArray X (o_files object)),
       o_docs = o_docs object,
       o_dists = loadedDists X (o_dists object),
       o_specsResults = o_specsResults object,
       o_license = o_license object,
       o_log = o_log object,
       o_deprecated = o_deprecated object \<rparr>"

definition fromString :: "Externals \<Rightarrow> string \<Rightarrow> error + Component" where
  "fromString X str =
     (case JSON_parse X str of
        None \<Rightarrow> Inl (Error ''Unexpected token in JSON'')
      | Some object \<Rightarrow> fromObject X (withLoaded X object))"

section \<open>Reference notions\<close>

text \<open>
  The search of \<^verbatim>\<open>copyDependenciesFromModel\<close> in the words of its description: an
  identity belongs to the first of the four classes of the model, in the order
  runtime, dev, compiler, tester, that has a record for it.
\<close>

datatype depClass = Runtime | Dev | CompilerClass | TesterClass

definition firstMatch :: "DependencyClasses \<Rightarrow> string \<Rightarrow> (depClass \<times> Dependency) option" where
  "firstMatch model idStr =
     (case getByIdStr idStr (dependencies model) of
        Some d \<Rightarrow> Some (Runtime, d)
      | None \<Rightarrow>
     (case getByIdStr idStr (devDependencies model) of
        Some d \<Rightarrow> Some (Dev, d)
      | None \<Rightarrow>
     (case getByIdStr idStr (compilerDependencies model) of
        Some d \<Rightarrow> Some (CompilerClass, d)
      | None \<Rightarrow>
     (case getByIdStr idStr (testerDependencies model) of
        Some d \<Rightarrow> Some (TesterClass, d)
      | None \<Rightarrow> None))))"

text \<open>The records that a list of identities brings into one class, in their order.\<close>

definition copiedInto :: "depClass \<Rightarrow> DependencyClasses \<Rightarrow> string list \<Rightarrow> Dependency list" where
  "copiedInto k model ids =
     List.map_filter
       (\<lambda>idStr. case firstMatch model idStr of
                   None \<Rightarrow> None
                 | Some (k', d) \<Rightarrow> if k' = k then Some d else None) ids"

definition extended :: "Dependencies \<Rightarrow> Dependency list \<Rightarrow> Dependencies" where
  "extended d new = Dependencies (Dependencies_get d @ new)"

text \<open>The component after the records of the identities \<open>found\<close> have been copied.\<close>

definition afterCopy :: "DependencyClasses \<Rightarrow> string list \<Rightarrow> Component \<Rightarrow> Component" where
  "afterCopy model found c =
     c\<lparr>dependencies := extended (dependencies c) (copiedInto Runtime model found),
       devDependencies := extended (devDependencies c) (copiedInto Dev model found),
       compilerDependencies := extended (compilerDependencies c) (copiedInto CompilerClass model found),
       testerDependencies := extended (testerDependencies c) (copiedInto TesterClass model found)\<rparr>"

section \<open>Sample values\<close>

text \<open>Concrete collaborators and components, on which the properties are instantiated.\<close>

definition sampleExternals :: Externals where
  "sampleExternals =
     \<lparr> DEFAULT_LANGUAGE = ''javascript'',
       DEFAULT_BINDINGS_PREFIX = ''@bit'',
       DEFAULT_DIST_DIRNAME = ''dist'',
       docsParser = (\<lambda>text rel. [Doclet rel]),
       SourceFile_load = (\<lambda>r. []),
       Compiler_toObject = (\<lambda>e. EnvDescriptor (ext_name e)),
       Compiler_loadFromModelObject = (\<lambda>d. Inl (HostError ''compiler not found'')),
       Tester_toObject = (\<lambda>e. EnvDescriptor (ext_name e)),
       Tester_loadFromModelObject = (\<lambda>d. Inl (HostError ''tester not found'')),
       SpecsResults_serialize =
         (\<lambda>r. SerializedSpecs (case specFile r of None \<Rightarrow> [] | Some f \<Rightarrow> f)),
       SpecsResults_deserialize = (\<lambda>l. []),
       SpecsResults_createFromRaw =
         (\<lambda>r. \<lparr>specFile = specPath r, sr_pass = pass r, sr_tests = tests r,
                sr_failures = failures r\<rparr>),
       getDistDirForConsumer = (\<lambda>consumer root. ''dist''),
       paintSpecsResults = (\<lambda>l. []),
       chalk_bold_white = (\<lambda>s. s),
       JSON_parse = (\<lambda>s. None),
       SourceFile_loadFromParsedStringArray = (\<lambda>l. None),
       Dist_loadFromParsedStringArray = (\<lambda>l. []) \<rparr>"

definition sampleFile :: "string \<Rightarrow> bool \<Rightarrow> SourceFile" where
  "sampleFile rel isTest = \<lparr>base = ''/w'', relative = rel, contents = ''code'', test = isTest\<rparr>"

definition sampleProps :: ComponentProps where
  "sampleProps =
     \<lparr> p_name = ''foo'', p_version = None, p_scope = None, p_lang = None, p_bindingPrefix = None,
       p_mainFile = ''a/b/x.js'', p_compiler = None, p_tester = None, p_bitJson = None,
       p_dependencies = None, p_devDependencies = None, p_compilerDependencies = None,
       p_testerDependencies = None, p_flattenedDependencies = None,
       p_flattenedDevDependencies = None, p_flattenedCompilerDependencies = None,
       p_flattenedTesterDependencies = None, p_packageDependencies = None,
       p_devPackageDependencies = None, p_peerPackageDependencies = None,
       p_compilerPackageDependencies = None, p_testerPackageDependencies = None,
       p_files = FilesArray [sampleFile ''a/b/x.js'' False, sampleFile ''a/b/y.js'' False],
       p_docs = None,
       p_dists = Some (DistArray [sampleFile ''a/b/x.js'' False]),
       p_specsResults = None, p_license = None, p_log = None, p_deprecated = None,
       p_origin = None, p_detachedCompiler = None, p_detachedTester = None,
       p_customResolvedPaths = None \<rparr>"

text \<open>The component that the constructor makes of \<open>sampleProps\<close>.\<close>

definition sampleComponent :: Component where
  "sampleComponent =
     \<lparr> dependencies = Dependencies [], devDependencies = Dependencies [],
       compilerDependencies = Dependencies [], testerDependencies = Dependencies [],
       name = ''foo'', version = None, scope = None, lang = ''javascript'',
       bindingPrefix = ''@bit'', mainFile = ''a/b/x.js'', compiler = None, tester = None,
       bitJson = None, flattenedDependencies = [], flattenedDevDependencies = [],
       flattenedCompilerDependencies = [], flattenedTesterDependencies = [],
       packageDependencies = [], devPackageDependencies = [], peerPackageDependencies = [],
       compilerPackageDependencies = [], testerPackageDependencies = [],
       priv_files = FilesArray [sampleFile ''a/b/x.js'' False, sampleFile ''a/b/y.js'' False],
       priv_docs = None,
       dists = Dists (DistArray [sampleFile ''a/b/x.js'' False]),
       specsResults = None, license = None, log = None, deprecated = False, origin = None,
       detachedCompiler = None, detachedTester = None, customResolvedPaths = [],
       writtenPath = None, originallySharedDir = None,
       priv_wasOriginallySharedDirStripped = False, componentFromModel = None,
       isolatedEnvironment = False \<rparr>"

definition sampleDependency :: "string \<Rightarrow> Dependency" where
  "sampleDependency n =
     \<lparr>dep_id = BitId None n None,
      relativePaths = [\<lparr>sourceRelativePath = ''a/b/'' @ n @ ''.js'',
                        destinationRelativePath = n @ ''.js''\<rparr>]\<rparr>"

definition sampleModel :: DependencyClasses where
  "sampleModel =
     \<lparr>dependencies = Dependencies [sampleDependency ''left''],
      devDependencies = Dependencies [sampleDependency ''right''],
      compilerDependencies = Dependencies [],
      testerDependencies = Dependencies []\<rparr>"







text \<open>A parsed document with the given \<^verbatim>\<open>dists\<close>, and a parser that knows two documents.\<close>

definition sampleDocument :: "json_dists \<Rightarrow> ParsedDocument" where
  "sampleDocument ds =
     \<lparr> o_name = ''foo'', o_box = None, o_version = Some ''0.0.1'', o_mainFile = ''x.js'',
       o_scope = Some ''scope'', o_lang = None, o_bindingPrefix = None, o_compiler = None,
       o_tester = None, o_detachedCompiler = None, o_detachedTester = None,
       o_dependencies = None, o_devDependencies = None, o_compilerDependencies = None,
       o_testerDependencies = None, o_packageDependencies = None,
       o_devPackageDependencies = None, o_peerPackageDependencies = None,
       o_compilerPackageDependencies = None, o_testerPackageDependencies = None,
       o_files = Some [ParsedVinyl [(''relativePath'', ''x.js'')]],
       o_docs = None, o_dists = ds, o_specsResults = None, o_license = None, o_log = None,
       o_deprecated = None \<rparr>"

definition sampleParser :: Externals where
  "sampleParser =
     sampleExternals\<lparr>
       JSON_parse :=
         (\<lambda>str. if str = ''legacy'' then
                   Some (sampleDocument (JArray [ParsedVinyl [(''relativePath'', ''dist/x.js'')]]))
                 else if str = ''current'' then
                   Some (sampleDocument (JWrapped [ParsedVinyl [(''relativePath'', ''dist/x.js'')]]))
                 else None),
       SourceFile_loadFromParsedStringArray :=
         map_option (map (\<lambda>parsed. case parsed of ParsedVinyl kv \<Rightarrow>
                       sampleFile (case map_of kv ''relativePath'' of None \<Rightarrow> [] | Some r \<Rightarrow> r) False)),
       Dist_loadFromParsedStringArray :=
         map (\<lambda>parsed. case parsed of ParsedVinyl kv \<Rightarrow>
                sampleFile (case map_of kv ''relativePath'' of None \<Rightarrow> [] | Some r \<Rightarrow> r) False)\<rparr>"

section \<open>Properties\<close>

subsection \<open>Construction\<close>

lemma path_normalize_nonempty: "path_normalize p \<noteq> []"
  by (simp add: path_normalize_def Let_def)

text \<open>
  Construction fails exactly when the name is empty: the constructor normalizes the
  main file before it validates, and a normalized path is never empty.
\<close>

lemma Component_new_rejects_iff:
  "(\<exists>m. Component_new X p = Inl (GeneralError m)) \<longleftrightarrow> p_name p = []"
  by (simp add: Component_new_def validateComponent_def path_normalize_nonempty)

lemma Component_new_accepts_iff:
  "(\<exists>c. Component_new X p = Inr c) \<longleftrightarrow> p_name p \<noteq> []"
  by (simp add: Component_new_def validateComponent_def path_normalize_nonempty)

text \<open>
  C3: the construction contract says that a component whose name or main file is the
  empty string is rejected with a GeneralError. For the main file the code does not do
  so: with the name \<^verbatim>\<open>foo\<close> and the main file \<^verbatim>\<open>''\<close> the constructor returns a
  component, whose main file is \<^verbatim>\<open>.\<close>.
\<close>

theorem empty_mainFile_is_accepted:
  "map_sum id mainFile (Component_new sampleExternals (sampleProps\<lparr>p_mainFile := []\<rparr>)) = Inr ''.''"
  by (simp add: Component_new_def sampleProps_def validateComponent_def path_normalize_def)

subsection \<open>Serialization round trip\<close>

text \<open>
  C1: the round trip \<^verbatim>\<open>fromObject(toObject(c))\<close> is to give back the dists of the
  component. On the sample component, whose dists hold one artifact, it gives a
  wrapper around the wrapper of the component, which holds no artifact of its own.
\<close>

theorem fromObject_toObject_wraps_dists:
  "map_sum id dists (fromObject sampleExternals (fst (toObject sampleExternals sampleComponent)))
     = Inr (Dists (DistsObject (dists sampleComponent))) \<and>
   map_sum id (\<lambda>c. Dists_isEmpty (dists c))
     (fromObject sampleExternals (fst (toObject sampleExternals sampleComponent))) = Inr True \<and>
   \<not> Dists_isEmpty (dists sampleComponent)"
  by (simp add: fromObject_def toObject_def sampleExternals_def sampleComponent_def get_files_def
        get_docs_def loadEnv_def Component_new_def validateComponent_def path_normalize_def
        Dists_new_def Dists_isEmpty_def Dists_get_def Let_def)

text \<open>
  The other fields of the round trip, for a component without plugins: the identity,
  the files (as the getter gives them), the dependency classes, the package maps and the deprecated flag come back
  as they are.
\<close>

lemma fromObject_toObject_fields:
  assumes "name c \<noteq> []" and "compiler c = None" and "tester c = None"
  shows "case fromObject X (fst (toObject X c)) of
           Inl e \<Rightarrow> False
         | Inr c' \<Rightarrow>
             name c' = name c \<and> scope c' = scope c \<and> version c' = version c \<and>
             priv_files c' = loadedFiles (fst (get_files X c)) \<and>
             dependencies c' = dependencies c \<and> devDependencies c' = devDependencies c \<and>
             compilerDependencies c' = compilerDependencies c \<and>
             testerDependencies c' = testerDependencies c \<and>
             packageDependencies c' = packageDependencies c \<and>
             devPackageDependencies c' = devPackageDependencies c \<and>
             peerPackageDependencies c' = peerPackageDependencies c \<and>
             compilerPackageDependencies c' = compilerPackageDependencies c \<and>
             testerPackageDependencies c' = testerPackageDependencies c \<and>
             deprecated c' = deprecated c \<and>
             dists c' = Dists (DistsObject (dists c))"
proof -
  obtain fs c1 where f: "get_files X c = (fs, c1)" by (cases "get_files X c")
  obtain d c2 where g: "get_docs X c1 = (d, c2)" by (cases "get_docs X c1")
  have obj: "fst (toObject X c) =
      \<lparr> o_name = name c, o_box = None, o_version = version c, o_mainFile = mainFile c,
        o_scope = scope c, o_lang = Some (lang c), o_bindingPrefix = Some (bindingPrefix c),
        o_compiler = None, o_tester = None,
        o_detachedCompiler = detachedCompiler c, o_detachedTester = detachedTester c,
        o_dependencies = Some (Dependencies_serialize (dependencies c)),
        o_devDependencies = Some (Dependencies_serialize (devDependencies c)),
        o_compilerDependencies = Some (Dependencies_serialize (compilerDependencies c)),
        o_testerDependencies = Some (Dependencies_serialize (testerDependencies c)),
        o_packageDependencies = Some (packageDependencies c),
        o_devPackageDependencies = Some (devPackageDependencies c),
        o_peerPackageDependencies = Some (peerPackageDependencies c),
        o_compilerPackageDependencies = Some (compilerPackageDependencies c),
        o_testerPackageDependencies = Some (testerPackageDependencies c),
        o_files = loadedFiles fs,
        o_docs = Some d,
        o_dists = Some (DistsObject (dists c)),
        o_specsResults = map_option (map (SpecsResults_serialize X)) (specsResults c),
        o_license = map_option License_serialize (license c),
        o_log = log c,
        o_deprecated = Some (deprecated c) \<rparr>"
    using assms(2,3) by (simp add: toObject_def f g)
  show ?thesis
    unfolding obj using assms(1) f
    by (simp add: fromObject_def loadEnv_def Component_new_def validateComponent_def
          path_normalize_nonempty Dists_new_def Dependencies_new_def Dependencies_serialize_def
          orElse_def)
qed

text \<open>A serialized component without the property \<^verbatim>\<open>deprecated\<close> is read as not deprecated.\<close>

lemma fromObject_deprecated_default:
  "fromObject X object = Inr c \<Longrightarrow> o_deprecated object = None \<Longrightarrow> \<not> deprecated c"
  by (auto simp: fromObject_def Component_new_def validateComponent_def orElse_def
        split: sum.splits if_splits)

subsection \<open>Memoized docs\<close>

text \<open>
  C10: the docs getter computes the doclets from the files when none are stored, and
  stores them; from then on every access returns the stored list, whatever the files
  are set to afterwards (and whatever else is done to the component, as long as the
  stored docs are not touched); a component without files gets the empty list.
\<close>

theorem docs_memoized:
  "get_docs X c = (d, c1) \<Longrightarrow>
     priv_docs c1 = Some d \<and>
     get_docs X (set_files val c1) = (d, set_files val c1) \<and>
     (priv_docs c2 = priv_docs c1 \<longrightarrow> get_docs X c2 = (d, c2)) \<and>
     (priv_docs c = None \<longrightarrow>
        d = (case fst (get_files X c) of
               None \<Rightarrow> []
             | Some fs \<Rightarrow> concat (map (\<lambda>file. docsParser X (contents file) (relative file)) fs))) \<and>
     (priv_docs c = None \<longrightarrow> fst (get_files X c) = None \<or> fst (get_files X c) = Some [] \<longrightarrow> d = [])"
  by (auto simp: get_docs_def set_files_def Let_def split: option.splits prod.splits)

theorem docs_memoized_witness:
  "get_docs sampleExternals sampleComponent =
     ([Doclet ''a/b/x.js'', Doclet ''a/b/y.js''],
      sampleComponent\<lparr>priv_docs := Some [Doclet ''a/b/x.js'', Doclet ''a/b/y.js'']\<rparr>) \<and>
   get_docs sampleExternals
     (set_files (FilesArray [sampleFile ''z.js'' False])
        (sampleComponent\<lparr>priv_docs := Some [Doclet ''a/b/x.js'', Doclet ''a/b/y.js'']\<rparr>)) =
     ([Doclet ''a/b/x.js'', Doclet ''a/b/y.js''],
      set_files (FilesArray [sampleFile ''z.js'' False])
        (sampleComponent\<lparr>priv_docs := Some [Doclet ''a/b/x.js'', Doclet ''a/b/y.js'']\<rparr>))"
proof -
  have g: "get_docs sampleExternals sampleComponent =
     ([Doclet ''a/b/x.js'', Doclet ''a/b/y.js''],
      sampleComponent\<lparr>priv_docs := Some [Doclet ''a/b/x.js'', Doclet ''a/b/y.js'']\<rparr>)"
    by (simp add: get_docs_def get_files_def sampleExternals_def sampleComponent_def sampleFile_def
          Let_def)
  from docs_memoized[OF g, of "FilesArray [sampleFile ''z.js'' False]"
      "sampleComponent\<lparr>priv_docs := Some [Doclet ''a/b/x.js'', Doclet ''a/b/y.js'']\<rparr>"] g
  show ?thesis by simp
qed

subsection \<open>Stripping the shared directory\<close>

text \<open>
  C4: a second call of \<^verbatim>\<open>stripOriginallySharedDir\<close> changes nothing: after a call
  that returned, the component is marked as stripped and every further call returns it
  as it is. A call throws only when the component has no files, before it writes
  anything.
\<close>

theorem stripOriginallySharedDir_twice:
  "(stripOriginallySharedDir X bm c = Inr c1 \<longrightarrow>
      priv_wasOriginallySharedDirStripped c1 \<and> stripOriginallySharedDir X bm' c1 = Inr c1) \<and>
   (stripOriginallySharedDir X bm c = Inl e \<longrightarrow>
      priv_files c = FilesNull \<and> \<not> priv_wasOriginallySharedDirStripped c)"
  unfolding stripOriginallySharedDir_def setOriginallySharedDir_def get_files_def
  by (auto simp: Let_def split: if_splits sum.splits option.splits prod.splits files_field.splits)

lemma strip_sampleComponent:
  "stripOriginallySharedDir sampleExternals None sampleComponent =
     Inr (sampleComponent\<lparr>
            priv_files := FilesArray [sampleFile ''x.js'' False, sampleFile ''y.js'' False],
            dists := Dists (DistArray [sampleFile ''x.js'' False]),
            mainFile := ''x.js'',
            originallySharedDir := Some ''a/b'',
            priv_wasOriginallySharedDirStripped := True\<rparr>)"
  by (simp add: stripOriginallySharedDir_def setOriginallySharedDir_def get_files_def
        sampleComponent_def sampleFile_def allPaths_def getSourcesPaths_def pathNormalizeToLinux_def
        pathWithoutSharedDir_def path_normalize_def path_sep_def updatePaths_def
        Dists_stripOriginallySharedDir_def Dependencies_stripOriginallySharedDir_def Let_def)

lemma strip_without_files:
  "stripOriginallySharedDir sampleExternals None (set_files FilesNull sampleComponent) =
     Inl (TypeError ''Cannot read property 'map' of null'')"
  by (simp add: stripOriginallySharedDir_def setOriginallySharedDir_def get_files_def set_files_def
        sampleComponent_def)

theorem stripOriginallySharedDir_twice_witness:
  "stripOriginallySharedDir sampleExternals None sampleComponent =
     Inr (sampleComponent\<lparr>
            priv_files := FilesArray [sampleFile ''x.js'' False, sampleFile ''y.js'' False],
            dists := Dists (DistArray [sampleFile ''x.js'' False]),
            mainFile := ''x.js'',
            originallySharedDir := Some ''a/b'',
            priv_wasOriginallySharedDirStripped := True\<rparr>) \<and>
   stripOriginallySharedDir sampleExternals None
     (sampleComponent\<lparr>
            priv_files := FilesArray [sampleFile ''x.js'' False, sampleFile ''y.js'' False],
            dists := Dists (DistArray [sampleFile ''x.js'' False]),
            mainFile := ''x.js'',
            originallySharedDir := Some ''a/b'',
            priv_wasOriginallySharedDirStripped := True\<rparr>) =
     Inr (sampleComponent\<lparr>
            priv_files := FilesArray [sampleFile ''x.js'' False, sampleFile ''y.js'' False],
            dists := Dists (DistArray [sampleFile ''x.js'' False]),
            mainFile := ''x.js'',
            originallySharedDir := Some ''a/b'',
            priv_wasOriginallySharedDirStripped := True\<rparr>) \<and>
   stripOriginallySharedDir sampleExternals None (set_files FilesNull sampleComponent) =
     Inl (TypeError ''Cannot read property 'map' of null'') \<and>
   priv_files (set_files FilesNull sampleComponent) = FilesNull \<and>
   \<not> priv_wasOriginallySharedDirStripped (set_files FilesNull sampleComponent)"
  using stripOriginallySharedDir_twice[of sampleExternals None sampleComponent _ None]
    stripOriginallySharedDir_twice[of sampleExternals None "set_files FilesNull sampleComponent"]
    strip_sampleComponent strip_without_files
  by simp


subsection \<open>The shared directory\<close>
















subsection \<open>Copying dependencies from the model\<close>

lemma extended_Nil: "extended d [] = d"
  by (simp add: extended_def)

lemma extended_add: "extended (Dependencies_add x d) new = extended d (x # new)"
  by (simp add: extended_def Dependencies_add_def)

lemma copiedInto_Nil: "copiedInto k m [] = []"
  by (simp add: copiedInto_def map_filter_simps)

lemma copiedInto_Cons:
  "firstMatch m i = Some (k', d) \<Longrightarrow>
   copiedInto k m (i # ids) = (if k' = k then d # copiedInto k m ids else copiedInto k m ids)"
  by (simp add: copiedInto_def map_filter_simps)

text \<open>One identity is copied into the class of its first match, or the copy throws.\<close>

lemma copyDependencyFromModel_firstMatch:
  "copyDependencyFromModel m i c =
     (case firstMatch m i of
        None \<Rightarrow> Inl (unableToFind i)
      | Some (Runtime, d) \<Rightarrow> Inr (c\<lparr>dependencies := Dependencies_add d (dependencies c)\<rparr>)
      | Some (Dev, d) \<Rightarrow> Inr (c\<lparr>devDependencies := Dependencies_add d (devDependencies c)\<rparr>)
      | Some (CompilerClass, d) \<Rightarrow>
          Inr (c\<lparr>compilerDependencies := Dependencies_add d (compilerDependencies c)\<rparr>)
      | Some (TesterClass, d) \<Rightarrow>
          Inr (c\<lparr>testerDependencies := Dependencies_add d (testerDependencies c)\<rparr>))"
  by (simp add: copyDependencyFromModel_def firstMatch_def split: option.splits)

lemma copyEach_first_missing:
  "copyEach m ids c =
     (afterCopy m (takeWhile (\<lambda>i. firstMatch m i \<noteq> None) ids) c,
      case dropWhile (\<lambda>i. firstMatch m i \<noteq> None) ids of
        [] \<Rightarrow> None
      | i # _ \<Rightarrow> Some (unableToFind i))"
proof (induction ids arbitrary: c)
  case Nil
  show ?case by (simp add: afterCopy_def copiedInto_Nil extended_Nil)
next
  case (Cons i ids)
  show ?case
  proof (cases "firstMatch m i")
    case None
    then show ?thesis
      by (simp add: copyDependencyFromModel_firstMatch afterCopy_def copiedInto_Nil extended_Nil)
  next
    case (Some kd)
    obtain k d where kd: "kd = (k, d)" by (cases kd)
    show ?thesis
      using Some kd Cons.IH
      by (cases k) (simp_all add: copyDependencyFromModel_firstMatch afterCopy_def
            copiedInto_Cons extended_add)
  qed
qed

text \<open>
  C6, as the claim states it, fails: with the sample model, whose runtime class holds
  \<^verbatim>\<open>left\<close>, the identities \<^verbatim>\<open>left\<close> and \<^verbatim>\<open>missing\<close> make the operation throw, and
  the runtime class of the component has been changed by then.
\<close>

theorem copyDependenciesFromModel_partial_counterexample:
  "snd (copyDependenciesFromModel [''left'', ''missing'']
          (sampleComponent\<lparr>componentFromModel := Some sampleModel\<rparr>))
     = Some (unableToFind ''missing'') \<and>
   dependencies (fst (copyDependenciesFromModel [''left'', ''missing'']
          (sampleComponent\<lparr>componentFromModel := Some sampleModel\<rparr>)))
     = Dependencies [sampleDependency ''left''] \<and>
   dependencies (sampleComponent\<lparr>componentFromModel := Some sampleModel\<rparr>) = Dependencies []"
  by (simp add: copyDependenciesFromModel_def copyDependencyFromModel_def getByIdStr_def
        sampleModel_def sampleDependency_def sampleComponent_def BitId_toString_def
        Dependencies_add_def)

text \<open>
  C6, amended: \<^verbatim>\<open>copyDependenciesFromModel\<close> takes the identities in their order;
  each one is searched in the four classes of the model in the order runtime, dev,
  compiler, tester, and its first match is added to the same class of the component.
  At the first identity that no class of the model holds the operation throws; the
  records of the identities before it have been copied by then, and nothing is copied
  for it or for the identities after it.
\<close>

theorem copyDependenciesFromModel_first_missing:
  "componentFromModel c = Some m \<Longrightarrow>
   copyDependenciesFromModel ids c =
     (afterCopy m (takeWhile (\<lambda>i. firstMatch m i \<noteq> None) ids) c,
      case dropWhile (\<lambda>i. firstMatch m i \<noteq> None) ids of
        [] \<Rightarrow> None
      | i # _ \<Rightarrow> Some (unableToFind i))"
  by (simp add: copyDependenciesFromModel_def copyEach_first_missing)

theorem copyDependenciesFromModel_first_missing_witness:
  "componentFromModel (sampleComponent\<lparr>componentFromModel := Some sampleModel\<rparr>) = Some sampleModel \<and>
   copyDependenciesFromModel [''right'', ''left'', ''missing'', ''left'']
     (sampleComponent\<lparr>componentFromModel := Some sampleModel\<rparr>) =
     (sampleComponent\<lparr>componentFromModel := Some sampleModel,
                      dependencies := Dependencies [sampleDependency ''left''],
                      devDependencies := Dependencies [sampleDependency ''right'']\<rparr>,
      Some (unableToFind ''missing''))"
proof -
  have m: "componentFromModel (sampleComponent\<lparr>componentFromModel := Some sampleModel\<rparr>)
             = Some sampleModel"
    by simp
  have found: "firstMatch sampleModel ''right'' = Some (Dev, sampleDependency ''right'')"
    "firstMatch sampleModel ''left'' = Some (Runtime, sampleDependency ''left'')"
    "firstMatch sampleModel ''missing'' = None"
    by (simp_all add: firstMatch_def getByIdStr_def sampleModel_def sampleDependency_def
          BitId_toString_def)
  have copied: "copiedInto Runtime sampleModel [''right'', ''left''] = [sampleDependency ''left'']"
    "copiedInto Dev sampleModel [''right'', ''left''] = [sampleDependency ''right'']"
    "copiedInto CompilerClass sampleModel [''right'', ''left''] = []"
    "copiedInto TesterClass sampleModel [''right'', ''left''] = []"
    by (simp_all add: copiedInto_def map_filter_simps found)
  from copyDependenciesFromModel_first_missing[OF m, of "[''right'', ''left'', ''missing'', ''left'']"]
  show ?thesis
    by (simp add: found afterCopy_def copied extended_def sampleComponent_def)
qed


subsection \<open>Building\<close>








subsection \<open>Running the specs\<close>

text \<open>
  In a workspace, \<^verbatim>\<open>runSpecs\<close> on a component with a tester and test files installs
  the tester if needed, builds the component, writes its dists and then runs the
  specs on the component itself.
\<close>

lemma runSpecs_in_workspace:
  assumes "get_files X c = (Some fs, c0)" and "filter test fs \<noteq> []"
    and "tester c0 = Some t" and "loaded t"
    and "\<not> r_isolated opts" and "r_consumer opts = Some cons"
    and "build X H \<lparr>b_save = False, b_consumer = Some cons, b_noCache = False, b_keep = False\<rparr> c0
           = (Inr d, tr, c1)"
    and "dists_writeDists H = None"
  shows "runSpecs X H opts c =
           (case run X H opts t c1 None of (r, tr', c2) \<Rightarrow> (r, tr @ [WriteDists] @ tr', c2))"
  using assms by (simp add: runSpecs_def Let_def)





subsection \<open>Reading a serialized component\<close>

lemma Component_new_dists:
  "Component_new X p = Inr c \<Longrightarrow> dists c = Dists_new (p_dists p)"
  by (auto simp: Component_new_def validateComponent_def split: if_splits)

lemma fromObject_dists:
  "fromObject X object = Inr c \<Longrightarrow> dists c = Dists_new (o_dists object)"
  by (auto simp: fromObject_def dest!: Component_new_dists split: sum.splits)

lemma withLoaded_dists: "o_dists (withLoaded X object) = loadedDists X (o_dists object)"
  by (simp add: withLoaded_def)

lemma withLoaded_ignores_shape:
  "loadedDists X ds = loadedDists X ds' \<Longrightarrow>
   withLoaded X (object\<lparr>o_dists := ds\<rparr>) = withLoaded X (object\<lparr>o_dists := ds'\<rparr>)"
  by (simp add: withLoaded_def)

text \<open>
  C9: a document whose \<^verbatim>\<open>dists\<close> is a bare array and a document whose \<^verbatim>\<open>dists\<close>
  is an object wrapping the same array are read by \<^verbatim>\<open>fromString\<close> into components
  with equal dists, namely the artifacts loaded from the array; if the documents differ
  in nothing else, \<^verbatim>\<open>fromString\<close> gives the same result for both.
\<close>

theorem fromString_dists_shapes:
  assumes "JSON_parse X s1 = Some d1" and "JSON_parse X s2 = Some d2"
    and "o_dists d1 = JArray arr" and "o_dists d2 = JWrapped arr"
  shows "(fromString X s1 = Inr c1 \<and> fromString X s2 = Inr c2 \<longrightarrow>
            dists c1 = dists c2 \<and>
            Dists_get (dists c1) = Dist_loadFromParsedStringArray X arr \<and>
            Dists_get (dists c2) = Dist_loadFromParsedStringArray X arr) \<and>
         (d2 = d1\<lparr>o_dists := JWrapped arr\<rparr> \<longrightarrow> fromString X s2 = fromString X s1)"
proof (intro conjI impI)
  assume both: "fromString X s1 = Inr c1 \<and> fromString X s2 = Inr c2"
  from both assms(1) have "fromObject X (withLoaded X d1) = Inr c1"
    by (simp add: fromString_def)
  then have c1: "dists c1 = Dists (DistArray (Dist_loadFromParsedStringArray X arr))"
    using assms(3) by (simp add: fromObject_dists withLoaded_dists loadedDists_def Dists_new_def)
  from both assms(2) have "fromObject X (withLoaded X d2) = Inr c2"
    by (simp add: fromString_def)
  then have c2: "dists c2 = Dists (DistArray (Dist_loadFromParsedStringArray X arr))"
    using assms(4) by (simp add: fromObject_dists withLoaded_dists loadedDists_def Dists_new_def)
  from c1 c2 show "dists c1 = dists c2" by simp
  from c1 show "Dists_get (dists c1) = Dist_loadFromParsedStringArray X arr"
    by (simp add: Dists_get_def)
  from c2 show "Dists_get (dists c2) = Dist_loadFromParsedStringArray X arr"
    by (simp add: Dists_get_def)
next
  assume same: "d2 = d1\<lparr>o_dists := JWrapped arr\<rparr>"
  have "d1 = d1\<lparr>o_dists := JArray arr\<rparr>" using assms(3) by simp
  then have "withLoaded X d1 = withLoaded X (d1\<lparr>o_dists := JArray arr\<rparr>)" by simp
  also have "\<dots> = withLoaded X (d1\<lparr>o_dists := JWrapped arr\<rparr>)"
    by (rule withLoaded_ignores_shape) (simp add: loadedDists_def)
  finally show "fromString X s2 = fromString X s1"
    using assms(1,2) same by (simp add: fromString_def)
qed

theorem fromString_dists_shapes_witness:
  "JSON_parse sampleParser ''legacy'' =
     Some (sampleDocument (JArray [ParsedVinyl [(''relativePath'', ''dist/x.js'')]])) \<and>
   JSON_parse sampleParser ''current'' =
     Some (sampleDocument (JWrapped [ParsedVinyl [(''relativePath'', ''dist/x.js'')]])) \<and>
   fromString sampleParser ''current'' = fromString sampleParser ''legacy'' \<and>
   map_sum id (\<lambda>c. Dists_get (dists c)) (fromString sampleParser ''legacy'')
     = Inr [sampleFile ''dist/x.js'' False]"
proof -
  let ?arr = "[ParsedVinyl [(''relativePath'', ''dist/x.js'')]]"
  have p1: "JSON_parse sampleParser ''legacy'' = Some (sampleDocument (JArray ?arr))"
    by (simp add: sampleParser_def)
  have p2: "JSON_parse sampleParser ''current'' = Some (sampleDocument (JWrapped ?arr))"
    by (simp add: sampleParser_def)
  have d1: "o_dists (sampleDocument (JArray ?arr)) = JArray ?arr"
    and d2: "o_dists (sampleDocument (JWrapped ?arr)) = JWrapped ?arr"
    and same: "sampleDocument (JWrapped ?arr) = (sampleDocument (JArray ?arr))\<lparr>o_dists := JWrapped ?arr\<rparr>"
    by (simp_all add: sampleDocument_def)
  note main = fromString_dists_shapes[OF p1 p2 d1 d2]
  have eq: "fromString sampleParser ''current'' = fromString sampleParser ''legacy''"
    using main same by blast
  have ok: "\<exists>c. fromString sampleParser ''legacy'' = Inr c"
    by (simp add: fromString_def p1 fromObject_def loadEnv_def sampleDocument_def withLoaded_def
          Component_new_def validateComponent_def path_normalize_nonempty)
  then obtain c where c: "fromString sampleParser ''legacy'' = Inr c" by blast
  with eq have c': "fromString sampleParser ''current'' = Inr c" by simp
  from main[of c c] c c' have "Dists_get (dists c) = Dist_loadFromParsedStringArray sampleParser ?arr"
    by blast
  also have "\<dots> = [sampleFile ''dist/x.js'' False]"
    by (simp add: sampleParser_def)
  finally have "map_sum id (\<lambda>c. Dists_get (dists c)) (fromString sampleParser ''legacy'')
     = Inr [sampleFile ''dist/x.js'' False]"
    using c by simp
  with p1 p2 eq show ?thesis by simp
qed


end
